theory Spec2Isabelle
  imports Main "HOL-Library.Word"
begin

section \<open>Values that leave the server\<close>

text \<open>
  A response body is a JSON value. An object is a list of key/value pairs, so that
  \<^verbatim>\<open>delete obj.key\<close> and "the object has key k" can be stated. ObjectIds and dates are
  kept as constructors of their own (\<open>JId\<close>, \<open>JDate\<close>); on the wire both are strings.
\<close>

type_synonym objectId = nat
type_synonym date = nat

datatype json =
    JNull
  | JBool bool
  | JNum nat
  | JStr string
  | JId objectId
  | JDate date
  | JArr "json list"
  | JObj "(string \<times> json) list"

type_synonym object = "(string \<times> json) list"

definition deleteKey :: "string \<Rightarrow> object \<Rightarrow> object" where
  "deleteKey k obj = filter (\<lambda>kv. fst kv \<noteq> k) obj"

definition hasKey :: "string \<Rightarrow> object \<Rightarrow> bool" where
  "hasKey k obj = (k \<in> fst ` set obj)"

definition getKey :: "string \<Rightarrow> object \<Rightarrow> json option" where
  "getKey k obj = map_of obj k"

definition optKey :: "string \<Rightarrow> ('a \<Rightarrow> json) \<Rightarrow> 'a option \<Rightarrow> object" where
  "optKey k f v = (case v of None \<Rightarrow> [] | Some x \<Rightarrow> [(k, f x)])"

text \<open>JavaScript truthiness of a value that is either \<^verbatim>\<open>undefined\<close> or a string.\<close>

definition truthy :: "string option \<Rightarrow> bool" where
  "truthy v = (case v of None \<Rightarrow> False | Some s \<Rightarrow> s \<noteq> [])"

text \<open>
  What a handler hands to Express: \<^verbatim>\<open>res.status(c).json(body)\<close>, or an exception that
  \<^verbatim>\<open>asyncHandler\<close> forwards to the error middleware (with the status code set before the
  \<^verbatim>\<open>throw\<close>, when the handler set one).
\<close>

datatype error =
    Error string
  | ValidationError
  | DuplicateKeyError
  | CastError
  | IllegalArguments
  | TypeError

datatype response = Json nat json | Threw "nat option" error

definition reject :: "nat \<Rightarrow> string \<Rightarrow> response" where
  "reject code msg = Json code (JObj [(''success'', JBool False), (''message'', JStr msg)])"

section \<open>External collaborators\<close>

text \<open>
  \<^verbatim>\<open>crypto.createHash("sha256")\<close>, \<^verbatim>\<open>bcrypt.hash\<close> and \<^verbatim>\<open>bcrypt.compare\<close> are library code.
  They are parameters of the model; what a theorem needs of them is a hypothesis of it.
\<close>

record crypto =
  sha256 :: "string \<Rightarrow> string"
  bcryptHash :: "string \<Rightarrow> string \<Rightarrow> string"
  bcryptCompare :: "string \<Rightarrow> string \<Rightarrow> bool"

text \<open>
  Everything a request reads from outside the database: the clock, the entropy source
  (\<^verbatim>\<open>crypto.randomBytes(3)\<close>, \<^verbatim>\<open>Math.random()\<close>, \<^verbatim>\<open>bcrypt.genSalt(10)\<close>) and the ObjectId
  the driver mints for a new document. \<open>mathRandom\<close> is the entropy behind
  \<^verbatim>\<open>Math.floor(100 + Math.random() * 900)\<close>, which ranges over 100..999.
\<close>

record env =
  now :: date
  fullYear :: nat
  randomBytes :: "8 word \<times> 8 word \<times> 8 word"
  mathRandom :: nat
  genSalt :: string
  newObjectId :: objectId

section \<open>Strings: hex, upper case, decimal\<close>

definition hexDigit :: "nat \<Rightarrow> char" where
  "hexDigit n = ''0123456789abcdef'' ! (n mod 16)"

definition byteToHex :: "8 word \<Rightarrow> string" where
  "byteToHex b = [hexDigit (unat b div 16), hexDigit (unat b mod 16)]"

definition toHex :: "8 word \<times> 8 word \<times> 8 word \<Rightarrow> string" where
  "toHex bs = (case bs of (a, b, c) \<Rightarrow> byteToHex a @ byteToHex b @ byteToHex c)"

definition upperChar :: "char \<Rightarrow> char" where
  "upperChar c = (let n = (of_char c :: nat) in if 97 \<le> n \<and> n \<le> 122 then char_of (n - 32) else c)"

definition toUpperCase :: "string \<Rightarrow> string" where
  "toUpperCase s = map upperChar s"

fun decimal :: "nat \<Rightarrow> string" where
  "decimal n = (if n < 10 then [hexDigit n] else decimal (n div 10) @ [hexDigit (n mod 10)])"

declare decimal.simps [simp del]

definition padStart :: "nat \<Rightarrow> char \<Rightarrow> string \<Rightarrow> string" where
  "padStart n c s = replicate (n - length s) c @ s"

definition startsWith :: "string \<Rightarrow> string \<Rightarrow> bool" where
  "startsWith s p = (take (length p) s = p)"

section \<open>The Report schema (models/Report.js)\<close>

record evidenceFile =
  filePath :: string
  fileType :: string
  fileName :: string
  uploadedAt :: date

record comment =
  role :: string
  message :: string
  commentCreatedAt :: date

record historyEntry =
  historyStatus :: string
  historyUpdatedAt :: date

text \<open>
  A stored report. \<open>None\<close> is \<^verbatim>\<open>undefined\<close> for the optional strings and \<^verbatim>\<open>null\<close> for the two
  references (createReport always passes them, as an id or as \<^verbatim>\<open>null\<close>). There is no
  field for the plaintext secret: \<^verbatim>\<open>_plainPassword\<close> is not a path of the schema. The
  \<^verbatim>\<open>createdAt\<close>/\<^verbatim>\<open>updatedAt\<close> pair that \<^verbatim>\<open>timestamps: true\<close> maintains is left to Mongoose
  and not modelled; \<^verbatim>\<open>__v\<close> is rendered as the constant 0.
\<close>

record report =
  rid :: objectId
  caseID :: "string option"
  reporterType :: string
  reporterName :: "string option"
  reporterEmail :: "string option"
  reporterPhone :: "string option"
  title :: string
  description :: string
  status :: string
  agencyAssigned :: "objectId option"
  location :: "string option"
  password :: "string option"
  passwordKey :: "string option"
  category :: "objectId option"
  isResolved :: bool
  internalNotes :: "string option"
  evidenceFiles :: "evidenceFile list"
  comments :: "comment list"
  history :: "historyEntry list"

text \<open>
  A Mongoose document in memory: the stored paths, and what Mongoose and the schema's
  methods keep beside them. \<open>modifiedStatus\<close> is \<^verbatim>\<open>this.isModified("status")\<close>: Mongoose
  marks a path modified when it is assigned a value that differs from the one it holds (or
  any value, on a new document); a path filled from its schema default is in the state
  "default", not "modify". \<open>selectPassword\<close> is \<^verbatim>\<open>select("+password")\<close> (the path has
  \<^verbatim>\<open>select: false\<close>); the two \<open>populated\<close> fields hold what \<^verbatim>\<open>populate\<close> put in place of a
  reference.
\<close>

record document = report +
  isNew :: bool
  plainPassword :: "string option"
  modifiedStatus :: bool
  selectPassword :: bool
  populatedCategory :: "json option"
  populatedAgency :: "json option"

record category =
  categoryId :: objectId
  categoryName :: string
  categoryDescription :: string

record agency =
  agencyId :: objectId
  agencyName :: string
  agencyEmail :: "string option"
  agencyPhone :: "string option"
  agencyDescription :: "string option"
  agencyUsers :: "objectId list"
  agencyActive :: bool

record auditLog =
  action :: string
  logDescription :: string
  targetReport :: "objectId option"
  logUser :: "objectId option"
  ipAddress :: "string option"

record db =
  reports :: "report list"
  categories :: "category list"
  agencies :: "agency list"
  auditLogs :: "auditLog list"

section \<open>Documents: projections\<close>

definition str :: "string option \<Rightarrow> string" where
  "str v = (case v of None \<Rightarrow> [] | Some s \<Rightarrow> s)"

definition fetch :: "bool \<Rightarrow> report \<Rightarrow> document" where
  "fetch sel r = report.extend r (document.fields False None False sel None None)"

definition evidenceObject :: "evidenceFile \<Rightarrow> json" where
  "evidenceObject e = JObj [(''filePath'', JStr (filePath e)), (''fileType'', JStr (fileType e)),
     (''fileName'', JStr (fileName e)), (''uploadedAt'', JDate (uploadedAt e))]"

definition commentObject :: "comment \<Rightarrow> json" where
  "commentObject c = JObj [(''role'', JStr (role c)), (''message'', JStr (message c)),
     (''createdAt'', JDate (commentCreatedAt c))]"

definition historyObject :: "historyEntry \<Rightarrow> json" where
  "historyObject h = JObj [(''status'', JStr (historyStatus h)), (''updatedAt'', JDate (historyUpdatedAt h))]"

definition toObject :: "document \<Rightarrow> object" where
  "toObject this =
     [(''_id'', JId (rid this))] @
     optKey ''caseID'' JStr (caseID this) @
     [(''reporterType'', JStr (reporterType this))] @
     optKey ''reporterName'' JStr (reporterName this) @
     optKey ''reporterEmail'' JStr (reporterEmail this) @
     optKey ''reporterPhone'' JStr (reporterPhone this) @
     [(''title'', JStr (title this)),
      (''description'', JStr (description this)),
      (''status'', JStr (status this)),
      (''agencyAssigned'',
         (case populatedAgency this of
            Some j \<Rightarrow> j
          | None \<Rightarrow> (case agencyAssigned this of None \<Rightarrow> JNull | Some a \<Rightarrow> JId a)))] @
     optKey ''location'' JStr (location this) @
     (if selectPassword this then optKey ''password'' JStr (password this) else []) @
     optKey ''passwordKey'' JStr (passwordKey this) @
     [(''category'',
         (case populatedCategory this of
            Some j \<Rightarrow> j
          | None \<Rightarrow> (case category this of None \<Rightarrow> JNull | Some c \<Rightarrow> JId c))),
      (''isResolved'', JBool (isResolved this))] @
     optKey ''internalNotes'' JStr (internalNotes this) @
     [(''evidenceFiles'', JArr (map evidenceObject (evidenceFiles this))),
      (''comments'', JArr (map commentObject (comments this))),
      (''history'', JArr (map historyObject (history this))),
      (''__v'', JNum 0)]"

text \<open>\<^verbatim>\<open>reportSchema.methods.getPublicData\<close>.\<close>

definition getPublicData :: "document \<Rightarrow> object" where
  "getPublicData this =
     (let obj = deleteKey ''__v'' (deleteKey ''passwordKey'' (deleteKey ''password'' (toObject this)))
      in if truthy (plainPassword this)
         then obj @ [(''generatedPassword'', JStr (str (plainPassword this)))]
         else obj)"

text \<open>The \<^verbatim>\<open>toJSON\<close> transform: what \<^verbatim>\<open>res.json\<close> sends for a document.\<close>

definition toJSON :: "document \<Rightarrow> object" where
  "toJSON doc =
     (let ret = deleteKey ''__v'' (deleteKey ''passwordKey'' (deleteKey ''password'' (toObject doc)))
      in if getKey ''reporterType'' ret = Some (JStr ''anonymous'')
         then deleteKey ''reporterPhone'' (deleteKey ''reporterEmail'' (deleteKey ''reporterName'' ret))
         else ret)"

text \<open>\<^verbatim>\<open>reportSchema.methods.matchPassword\<close>; bcryptjs throws on a hash that is not a string.\<close>

definition matchPassword :: "crypto \<Rightarrow> document \<Rightarrow> string \<Rightarrow> error + bool" where
  "matchPassword cr this enteredPassword =
     (case password this of
        None \<Rightarrow> Inl IllegalArguments
      | Some h \<Rightarrow> Inr (bcryptCompare cr enteredPassword h))"

subsection \<open>populate\<close>

definition selectKeys :: "string list option \<Rightarrow> object \<Rightarrow> object" where
  "selectKeys sel obj =
     (case sel of
        None \<Rightarrow> obj
      | Some ks \<Rightarrow> filter (\<lambda>kv. fst kv = ''_id'' \<or> fst kv \<in> set ks) obj)"

definition categoryObject :: "category \<Rightarrow> object" where
  "categoryObject c = [(''_id'', JId (categoryId c)), (''name'', JStr (categoryName c)),
     (''description'', JStr (categoryDescription c)), (''__v'', JNum 0)]"

definition agencyObject :: "agency \<Rightarrow> object" where
  "agencyObject a =
     [(''_id'', JId (agencyId a)), (''name'', JStr (agencyName a))] @
     optKey ''email'' JStr (agencyEmail a) @
     optKey ''phone'' JStr (agencyPhone a) @
     optKey ''description'' JStr (agencyDescription a) @
     [(''users'', JArr (map JId (agencyUsers a))), (''active'', JBool (agencyActive a)),
      (''__v'', JNum 0)]"

definition populateCategory :: "string list option \<Rightarrow> db \<Rightarrow> document \<Rightarrow> document" where
  "populateCategory sel db this =
     (case category this of
        None \<Rightarrow> this
      | Some c \<Rightarrow>
          this\<lparr>populatedCategory :=
            Some (case find (\<lambda>x. categoryId x = c) (categories db) of
                    None \<Rightarrow> JNull
                  | Some x \<Rightarrow> JObj (selectKeys sel (categoryObject x)))\<rparr>)"

definition populateAgency :: "string list option \<Rightarrow> db \<Rightarrow> document \<Rightarrow> document" where
  "populateAgency sel db this =
     (case agencyAssigned this of
        None \<Rightarrow> this
      | Some a \<Rightarrow>
          this\<lparr>populatedAgency :=
            Some (case find (\<lambda>x. agencyId x = a) (agencies db) of
                    None \<Rightarrow> JNull
                  | Some x \<Rightarrow> JObj (selectKeys sel (agencyObject x)))\<rparr>)"

section \<open>Saving a document: validation, the three pre-save hooks, the unique indexes\<close>

definition allowedStatuses :: "string list" where
  "allowedStatuses = [''pending'', ''under review'', ''resolved'', ''closed'']"

text \<open>
  The schema's validators: the two required strings, the two enums, and the required
  strings of the embedded documents. (Mongoose validates the paths that were set; every
  stored report passed this check when it was saved, so checking the whole document
  gives the same answer.)
\<close>

definition validate :: "document \<Rightarrow> bool" where
  "validate this \<longleftrightarrow>
     title this \<noteq> [] \<and> description this \<noteq> [] \<and>
     reporterType this \<in> set [''anonymous'', ''confidential''] \<and>
     status this \<in> set allowedStatuses \<and>
     list_all (\<lambda>e. filePath e \<noteq> []) (evidenceFiles this) \<and>
     list_all (\<lambda>c. message c \<noteq> []) (comments this)"

text \<open>First hook: \<^verbatim>\<open>// Auto-generate caseID before saving\<close>.\<close>

definition preSaveCaseID :: "env \<Rightarrow> db \<Rightarrow> document \<Rightarrow> document" where
  "preSaveCaseID env db this =
     (if truthy (caseID this) then this
      else
        let currentYear = fullYear env;
            count = length (filter (\<lambda>r. startsWith (str (caseID r)) (''LAG-'' @ decimal currentYear))
                             (reports db));
            nextNumber = padStart 5 (CHR ''0'') (decimal (count + 1));
            randomSuffix = 100 + mathRandom env mod 900
        in this\<lparr>caseID := Some (''LAG-'' @ decimal currentYear @ ''-'' @ nextNumber @ ''-'' @
                                  decimal randomSuffix)\<rparr>)"

text \<open>Second hook: \<^verbatim>\<open>// Auto-generate and hash unique password\<close>.\<close>

definition generatePassword :: "env \<Rightarrow> string" where
  "generatePassword env = toUpperCase (toHex (randomBytes env))"

definition preSavePassword :: "crypto \<Rightarrow> env \<Rightarrow> document \<Rightarrow> document" where
  "preSavePassword cr env this =
     (if \<not> isNew this then this
      else
        let plain = generatePassword env
        in this\<lparr>plainPassword := Some plain,
                passwordKey := Some (sha256 cr plain),
                password := Some (bcryptHash cr plain (genSalt env))\<rparr>)"

text \<open>Third hook: \<^verbatim>\<open>// when status changes, push a new record into history\<close>.\<close>

definition preSaveHistory :: "env \<Rightarrow> document \<Rightarrow> document" where
  "preSaveHistory env this =
     (if modifiedStatus this
      then this\<lparr>history := history this @
                    [\<lparr>historyStatus = status this, historyUpdatedAt = now env\<rparr>]\<rparr>
      else this)"

text \<open>
  The unique indexes: \<^verbatim>\<open>_id\<close>, and the three paths declared \<^verbatim>\<open>unique: true\<close>.
\<close>

definition duplicateKey :: "db \<Rightarrow> document \<Rightarrow> bool" where
  "duplicateKey db this \<longleftrightarrow>
     rid this \<in> set (map rid (reports db)) \<or>
     caseID this \<in> set (map caseID (reports db)) \<or>
     password this \<in> set (map password (reports db)) \<or>
     passwordKey this \<in> set (map passwordKey (reports db))"

definition save :: "crypto \<Rightarrow> env \<Rightarrow> db \<Rightarrow> document \<Rightarrow> error + (document \<times> db)" where
  "save cr env db this =
     (if \<not> validate this then Inl ValidationError
      else
        let this' = preSaveHistory env (preSavePassword cr env (preSaveCaseID env db this))
        in if isNew this'
           then (if duplicateKey db this' then Inl DuplicateKeyError
                 else Inr (this'\<lparr>isNew := False, modifiedStatus := False\<rparr>,
                           db\<lparr>reports := reports db @ [report.truncate this']\<rparr>))
           else Inr (this'\<lparr>modifiedStatus := False\<rparr>,
                     db\<lparr>reports := map (\<lambda>r. if rid r = rid this' then report.truncate this' else r)
                                        (reports db)\<rparr>))"

text \<open>\<^verbatim>\<open>AuditLog.create\<close>.\<close>

definition audit :: "string \<Rightarrow> string \<Rightarrow> objectId \<Rightarrow> objectId option \<Rightarrow> string option \<Rightarrow> db \<Rightarrow> db" where
  "audit act descr target usr ip db =
     db\<lparr>auditLogs := auditLogs db @
        [\<lparr>action = act, logDescription = descr, targetReport = Some target,
          logUser = usr, ipAddress = ip\<rparr>]\<rparr>"

section \<open>Request inputs\<close>

text \<open>
  An id that arrives in the URL or the body: absent (\<^verbatim>\<open>undefined\<close>), a string that is not an
  ObjectId, or the 24 hex digits of one. \<^verbatim>\<open>Model.findById\<close> answers \<^verbatim>\<open>null\<close> for the first,
  throws a CastError for the second and searches for the third.
\<close>

datatype idArg = NoId | BadId | Oid objectId

text \<open>A file as multer-s3 leaves it in \<^verbatim>\<open>req.files\<close>.\<close>

record upload =
  uploadLocation :: string
  mimetype :: string
  originalname :: string

definition findById :: "report list \<Rightarrow> idArg \<Rightarrow> error + report option" where
  "findById rs i =
     (case i of
        NoId \<Rightarrow> Inr None
      | BadId \<Rightarrow> Inl CastError
      | Oid k \<Rightarrow> Inr (find (\<lambda>r. rid r = k) rs))"

definition findCategoryById :: "category list \<Rightarrow> idArg \<Rightarrow> error + category option" where
  "findCategoryById cs i =
     (case i of
        NoId \<Rightarrow> Inr None
      | BadId \<Rightarrow> Inl CastError
      | Oid k \<Rightarrow> Inr (find (\<lambda>c. categoryId c = k) cs))"

definition findAgencyById :: "agency list \<Rightarrow> idArg \<Rightarrow> error + agency option" where
  "findAgencyById as i =
     (case i of
        NoId \<Rightarrow> Inr None
      | BadId \<Rightarrow> Inl CastError
      | Oid k \<Rightarrow> Inr (find (\<lambda>a. agencyId a = k) as))"

text \<open>
  Assignment to \<^verbatim>\<open>report.status\<close>, with Mongoose's change tracking: the path becomes
  modified when the new value differs from the one the document holds.
\<close>

definition setStatus :: "string \<Rightarrow> document \<Rightarrow> document" where
  "setStatus s this =
     this\<lparr>status := s, modifiedStatus := (modifiedStatus this \<or> isNew this \<or> s \<noteq> status this)\<rparr>"

section \<open>controllers/reporterController.js\<close>

text \<open>
  What \<^verbatim>\<open>new Report({...})\<close> builds in createReport: the given paths, and the schema
  defaults for the rest (\<^verbatim>\<open>status\<close> is not among the given paths).
\<close>

definition newReport ::
  "env \<Rightarrow> (string \<rightharpoonup> string) \<Rightarrow> objectId option \<Rightarrow> objectId option \<Rightarrow> evidenceFile list \<Rightarrow> document" where
  "newReport env body cat ag evidence =
     \<lparr>rid = newObjectId env,
      caseID = None,
      reporterType = str (body ''reporterType''),
      reporterName = body ''reporterName'',
      reporterEmail = body ''reporterEmail'',
      reporterPhone = body ''reporterPhone'',
      title = str (body ''title''),
      description = str (body ''description''),
      status = ''pending'',
      agencyAssigned = ag,
      location = body ''location'',
      password = None,
      passwordKey = None,
      category = cat,
      isResolved = False,
      internalNotes = None,
      evidenceFiles = evidence,
      comments = [],
      history = [],
      isNew = True,
      plainPassword = None,
      modifiedStatus = False,
      selectPassword = True,
      populatedCategory = None,
      populatedAgency = None\<rparr>"

definition createReport ::
  "crypto \<Rightarrow> env \<Rightarrow> (string \<rightharpoonup> string) \<Rightarrow> upload list \<Rightarrow> string option \<Rightarrow> db \<Rightarrow> response \<times> db" where
  "createReport cr env body files ip db =
     (let title' = body ''title''; description' = body ''description'';
          reporterType' = body ''reporterType''; reporterName' = body ''reporterName'';
          reporterEmail' = body ''reporterEmail''; reporterPhone' = body ''reporterPhone''
      in
      if \<not> truthy title' \<or> \<not> truthy description' then
        (reject 400 ''Title and description are required fields.'', db)
      else if reporterType' \<notin> set [Some ''anonymous'', Some ''confidential''] then
        (reject 400 ''Invalid reporter type. Must be 'anonymous' or 'confidential'.'', db)
      else if reporterType' = Some ''anonymous'' \<and>
              (truthy reporterName' \<or> truthy reporterEmail' \<or> truthy reporterPhone') then
        (reject 400 ''Anonymous reports cannot include name, email, or phone information.'', db)
      else if reporterType' = Some ''confidential'' \<and>
              (\<not> truthy reporterName' \<or> \<not> truthy reporterEmail') then
        (reject 400 ''Confidential reports must include reporter name and email address.'', db)
      else
        let defaultCategory = find (\<lambda>c. categoryName c = ''uncategorised'') (categories db);
            defaultAgency = find (\<lambda>a. agencyName a = ''unassigned'') (agencies db);
            evidence = map (\<lambda>file. \<lparr>filePath = uploadLocation file, fileType = mimetype file,
                                     fileName = originalname file, uploadedAt = now env\<rparr>) files
        in
        case save cr env db
               (newReport env body
                  (case defaultCategory of None \<Rightarrow> None | Some c \<Rightarrow> Some (categoryId c))
                  (case defaultAgency of None \<Rightarrow> None | Some a \<Rightarrow> Some (agencyId a))
                  evidence) of
          Inl e \<Rightarrow> (Threw None e, db)
        | Inr (report, db') \<Rightarrow>
            (Json 201 (JObj
               ([(''success'', JBool True),
                 (''message'', JStr ''Report submitted successfully''),
                 (''data'', JObj (getPublicData report))] @
                optKey ''casePassword'' JStr (plainPassword report))),
             audit ''REPORT_CREATED''
               (''Report created with caseID: '' @ str (caseID report))
               (rid report) None ip db'))"

text \<open>
  The calls a password-gated handler makes to find its report, in order: the handlers
  return them beside their response, so that how a report is looked up can be stated.
\<close>

datatype call =
    Sha256 string
  | FindOneByPasswordKey string
  | FindAll
  | MatchPassword objectId

definition getReportByPassword :: "crypto \<Rightarrow> string option \<Rightarrow> db \<Rightarrow> response \<times> call list" where
  "getReportByPassword cr password' db =
     (if \<not> truthy password' then (reject 400 ''Password is required.'', [])
      else
        let passwordKey' = sha256 cr (str password');
            calls = [Sha256 (str password'), FindOneByPasswordKey passwordKey']
        in
        case find (\<lambda>r. passwordKey r = Some passwordKey') (reports db) of
          None \<Rightarrow> (reject 404 ''No report found for this password.'', calls)
        | Some r \<Rightarrow>
            let report = populateAgency (Some [''name'', ''description'']) db
                           (populateCategory (Some [''name'', ''description'']) db (fetch True r))
            in
            (case matchPassword cr report (str password') of
               Inl e \<Rightarrow> (Threw None e, calls @ [MatchPassword (rid report)])
             | Inr isMatch \<Rightarrow>
                 if \<not> isMatch then (reject 401 ''Invalid password.'', calls @ [MatchPassword (rid report)])
                 else
                   (Json 200 (JObj
                      [(''success'', JBool True),
                       (''message'', JStr ''Report retrieved successfully.''),
                       (''data'', JObj (getPublicData report))]),
                    calls @ [MatchPassword (rid report)])))"

text \<open>The loop of addWhistleblowerMessage: \<^verbatim>\<open>for (const report of reports) ... break\<close>.\<close>

fun findMatch :: "crypto \<Rightarrow> string \<Rightarrow> document list \<Rightarrow> (error + document option) \<times> call list" where
  "findMatch cr pw [] = (Inr None, [])"
| "findMatch cr pw (report # reports') =
     (case matchPassword cr report pw of
        Inl e \<Rightarrow> (Inl e, [MatchPassword (rid report)])
      | Inr isMatch \<Rightarrow>
          if isMatch then (Inr (Some report), [MatchPassword (rid report)])
          else (case findMatch cr pw reports' of
                  (res, calls) \<Rightarrow> (res, MatchPassword (rid report) # calls)))"

definition addWhistleblowerMessage ::
  "crypto \<Rightarrow> env \<Rightarrow> string option \<Rightarrow> string option \<Rightarrow> upload list \<Rightarrow> string option \<Rightarrow> db
     \<Rightarrow> response \<times> db \<times> call list" where
  "addWhistleblowerMessage cr env password' message' files ip db =
     (if \<not> truthy password' \<or> \<not> truthy message' then
        (reject 400 ''Password and message are required.'', db, [])
      else
        case findMatch cr (str password') (map (fetch True) (reports db)) of
          (Inl e, calls) \<Rightarrow> (Threw None e, db, FindAll # calls)
        | (Inr None, calls) \<Rightarrow>
            (reject 401 ''Invalid password. Report not found.'', db, FindAll # calls)
        | (Inr (Some matchedReport), calls) \<Rightarrow>
            let evidence = map (\<lambda>file. \<lparr>filePath = uploadLocation file,
                                       fileType = takeWhile (\<lambda>c. c \<noteq> CHR ''/'') (mimetype file),
                                       fileName = originalname file, uploadedAt = now env\<rparr>) files;
                pushed = matchedReport\<lparr>evidenceFiles := evidenceFiles matchedReport @ evidence\<rparr>;
                commented = pushed\<lparr>comments := comments pushed @
                              [\<lparr>role = ''reporter'', message = str message',
                                commentCreatedAt = now env\<rparr>]\<rparr>
            in
            (case save cr env db commented of
               Inl e \<Rightarrow> (Threw None e, db, FindAll # calls)
             | Inr (saved, db') \<Rightarrow>
                 (Json 201 (JObj
                    [(''success'', JBool True),
                     (''message'', JStr ''Message added successfully.''),
                     (''data'', JObj
                        [(''comments'', JArr (map commentObject (comments saved))),
                         (''evidenceFiles'', JArr (map evidenceObject (evidenceFiles saved)))])]),
                  audit ''REPORT_UPDATED_BY_REPORTER''
                    (''Whistle-blower added message to case '' @ str (caseID saved))
                    (rid saved) None ip db',
                  FindAll # calls)))"

section \<open>controllers/adminController.js\<close>

definition ok :: "nat \<Rightarrow> string \<Rightarrow> json \<Rightarrow> response" where
  "ok code msg data =
     Json code (JObj [(''success'', JBool True), (''message'', JStr msg), (''data'', data)])"

definition joinComma :: "string list \<Rightarrow> string" where
  "joinComma xs = (case xs of [] \<Rightarrow> [] | y # ys \<Rightarrow> y @ concat (map (\<lambda>z. '', '' @ z) ys))"

definition updateReportStatus ::
  "crypto \<Rightarrow> env \<Rightarrow> idArg \<Rightarrow> string option \<Rightarrow> string option \<Rightarrow> db \<Rightarrow> response \<times> db" where
  "updateReportStatus cr env id' status' ip db =
     (case id' of
        NoId \<Rightarrow> (reject 400 ''Invalid report ID.'', db)
      | BadId \<Rightarrow> (reject 400 ''Invalid report ID.'', db)
      | Oid k \<Rightarrow>
          if status' \<notin> set (map Some allowedStatuses) then
            (reject 400 (''Invalid status. Allowed values: '' @ joinComma allowedStatuses), db)
          else
            (case find (\<lambda>r. rid r = k) (reports db) of
               None \<Rightarrow> (reject 404 ''Report not found.'', db)
             | Some r \<Rightarrow>
                 let report = fetch False r;
                     flagged =
                       (if status' = Some ''resolved'' then report\<lparr>isResolved := True\<rparr>
                        else if status' = Some ''closed'' then report
                        else report\<lparr>isResolved := False\<rparr>)
                 in
                 (case save cr env db (setStatus (str status') flagged) of
                    Inl e \<Rightarrow> (Threw None e, db)
                  | Inr (saved, db') \<Rightarrow>
                      (ok 200 ''Report status updated successfully.''
                         (JObj (toJSON (populateAgency None db' (populateCategory None db' saved)))),
                       audit ''STATUS_UPDATED''
                         (''Status of report '' @ str (caseID saved) @ '' changed to '' @
                          [CHR 0x27] @ str status' @ [CHR 0x27])
                         (rid saved) None ip db'))))"

definition assignReportToAgency ::
  "crypto \<Rightarrow> env \<Rightarrow> idArg \<Rightarrow> idArg \<Rightarrow> string option \<Rightarrow> db \<Rightarrow> response \<times> db" where
  "assignReportToAgency cr env id' agencyId' ip db =
     (case findById (reports db) id' of
        Inl e \<Rightarrow> (Threw None e, db)
      | Inr None \<Rightarrow> (reject 404 ''Report not found'', db)
      | Inr (Some r) \<Rightarrow>
          (case findAgencyById (agencies db) agencyId' of
             Inl e \<Rightarrow> (Threw None e, db)
           | Inr None \<Rightarrow> (reject 404 ''Agency not found'', db)
           | Inr (Some agency) \<Rightarrow>
               (case save cr env db ((fetch False r)\<lparr>agencyAssigned := Some (agencyId agency)\<rparr>) of
                  Inl e \<Rightarrow> (Threw None e, db)
                | Inr (saved, db') \<Rightarrow>
                    (ok 200 ''Agency assigned successfully''
                       (JObj (toJSON (populateAgency None db' (populateCategory None db' saved)))),
                     audit ''AGENCY_ASSIGNED''
                       (''Report '' @ str (caseID saved) @ '' assigned to agency '' @
                        [CHR 0x27] @ agencyName agency @ [CHR 0x27])
                       (rid saved) None ip db'))))"

definition updateReportCategory ::
  "crypto \<Rightarrow> env \<Rightarrow> idArg \<Rightarrow> idArg \<Rightarrow> string option \<Rightarrow> db \<Rightarrow> response \<times> db" where
  "updateReportCategory cr env id' categoryId' ip db =
     (case findById (reports db) id' of
        Inl e \<Rightarrow> (Threw None e, db)
      | Inr None \<Rightarrow> (reject 404 ''Report not found'', db)
      | Inr (Some r) \<Rightarrow>
          (case findCategoryById (categories db) categoryId' of
             Inl e \<Rightarrow> (Threw None e, db)
           | Inr None \<Rightarrow> (reject 404 ''Category not found'', db)
           | Inr (Some cat) \<Rightarrow>
               (case save cr env db ((fetch False r)\<lparr>category := Some (categoryId cat)\<rparr>) of
                  Inl e \<Rightarrow> (Threw None e, db)
                | Inr (saved, db') \<Rightarrow>
                    (ok 200 ''Category assigned successfully''
                       (JObj (toJSON (populateAgency None db' (populateCategory None db' saved)))),
                     audit ''CATEGORY_ASSIGNED''
                       (''Category '' @ [CHR 0x27] @ categoryName cat @ [CHR 0x27] @
                        '' assigned to report '' @ str (caseID saved))
                       (rid saved) None ip db'))))"

definition addAdminMessage ::
  "crypto \<Rightarrow> env \<Rightarrow> idArg \<Rightarrow> string option \<Rightarrow> objectId option \<Rightarrow> string option \<Rightarrow> db
     \<Rightarrow> response \<times> db" where
  "addAdminMessage cr env reportId message' user ip db =
     (case findById (reports db) reportId of
        Inl e \<Rightarrow> (Threw None e, db)
      | Inr None \<Rightarrow> (Threw (Some 404) (Error ''Report not found.''), db)
      | Inr (Some r) \<Rightarrow>
          if \<not> truthy message' then (Threw (Some 400) (Error ''Message content is required.''), db)
          else
            let report = fetch False r;
                commented = report\<lparr>comments := comments report @
                              [\<lparr>role = ''admin'', message = str message',
                                commentCreatedAt = now env\<rparr>]\<rparr>
            in
            (case save cr env db commented of
               Inl e \<Rightarrow> (Threw None e, db)
             | Inr (saved, db') \<Rightarrow>
                 (ok 201 ''Admin message added successfully.''
                    (JArr (map commentObject (comments saved))),
                  audit ''REPORT_UPDATED_BY_ADMIN''
                    (''Admin added message to case '' @ str (caseID saved))
                    (rid saved) user ip db')))"

text \<open>
  The two admin reads. The keyword search of getAllReports is a regular expression over
  three paths; it is taken as a predicate \<open>searchFilter\<close>. Newest first is the reverse of
  the order of insertion.
\<close>

definition getReportById :: "idArg \<Rightarrow> db \<Rightarrow> response" where
  "getReportById id' db =
     (case id' of
        NoId \<Rightarrow> Threw None TypeError
      | BadId \<Rightarrow> reject 400 ''Invalid report ID format.''
      | Oid k \<Rightarrow>
          (case find (\<lambda>r. rid r = k) (reports db) of
             None \<Rightarrow> reject 404 ''Report not found.''
           | Some r \<Rightarrow>
               ok 200 ''Report retrieved successfully.''
                 (JObj (toJSON
                    (populateAgency (Some [''name'', ''description'', ''email'', ''phone'']) db
                       (populateCategory (Some [''name'', ''description'']) db (fetch False r)))))))"

definition listed :: "db \<Rightarrow> report \<Rightarrow> json" where
  "listed db r =
     JObj (toJSON (populateAgency (Some [''name'']) db
                     (populateCategory (Some [''name'']) db (fetch False r))))"

definition getAllReports :: "(report \<Rightarrow> bool) \<Rightarrow> nat \<Rightarrow> nat \<Rightarrow> db \<Rightarrow> response" where
  "getAllReports searchFilter page limit db =
     (let found = rev (filter searchFilter (reports db));
          total = length found;
          reports' = take limit (drop ((page - 1) * limit) found)
      in Json 200 (JObj
           [(''success'', JBool True),
            (''currentPage'', JNum page),
            (''totalPages'', JNum ((total + limit - 1) div limit)),
            (''totalReports'', JNum total),
            (''count'', JNum (length reports')),
            (''data'', JArr (map (listed db) reports'))]))"

definition getUnassignedReports :: "db \<Rightarrow> response" where
  "getUnassignedReports db =
     (case find (\<lambda>a. agencyName a = ''unassigned'') (agencies db) of
        None \<Rightarrow> reject 404 ''Default 'unassigned' agency not found''
      | Some defaultAgency \<Rightarrow>
          let unassignedReports =
                rev (filter (\<lambda>r. agencyAssigned r = Some (agencyId defaultAgency)) (reports db))
          in Json 200 (JObj
               [(''success'', JBool True),
                (''count'', JNum (length unassignedReports)),
                (''data'', JArr (map (listed db) unassignedReports))]))"

definition deleteCategory :: "idArg \<Rightarrow> db \<Rightarrow> response \<times> db" where
  "deleteCategory id' db =
     (case id' of
        NoId \<Rightarrow> (Threw None TypeError, db)
      | BadId \<Rightarrow> (reject 400 ''Invalid category ID format.'', db)
      | Oid k \<Rightarrow>
          (case find (\<lambda>c. categoryId c = k) (categories db) of
             None \<Rightarrow> (reject 404 ''Category not found.'', db)
           | Some c \<Rightarrow>
               (Json 200 (JObj [(''success'', JBool True),
                                (''message'', JStr ''Category deleted successfully.'')]),
                db\<lparr>categories := filter (\<lambda>c'. categoryId c' \<noteq> k) (categories db)\<rparr>)))"

definition deleteAgency :: "idArg \<Rightarrow> db \<Rightarrow> response \<times> db" where
  "deleteAgency id' db =
     (case id' of
        NoId \<Rightarrow> (Threw None TypeError, db)
      | BadId \<Rightarrow> (reject 400 ''Invalid agency ID format.'', db)
      | Oid k \<Rightarrow>
          (case find (\<lambda>a. agencyId a = k) (agencies db) of
             None \<Rightarrow> (reject 404 ''Agency not found.'', db)
           | Some a \<Rightarrow>
               (Json 200 (JObj [(''success'', JBool True),
                                (''message'', JStr ''Agency deleted successfully.'')]),
                db\<lparr>agencies := filter (\<lambda>a'. agencyId a' \<noteq> k) (agencies db)\<rparr>)))"

section \<open>controllers/agencyController.js\<close>

text \<open>
  \<open>user\<close> is \<^verbatim>\<open>req.user\<close>, as the \<^verbatim>\<open>protect\<close> middleware sets it: the id of a User document
  (\<open>None\<close> when there is none). \<^verbatim>\<open>Agency.findOne({ users: id })\<close> answers the first agency
  whose \<^verbatim>\<open>users\<close> array holds the id.
\<close>

definition agencyOfUser :: "db \<Rightarrow> objectId \<Rightarrow> agency option" where
  "agencyOfUser db u = find (\<lambda>a. u \<in> set (agencyUsers a)) (agencies db)"

definition getAgencyReports ::
  "(report \<Rightarrow> bool) \<Rightarrow> nat \<Rightarrow> nat \<Rightarrow> string \<Rightarrow> objectId \<Rightarrow> db \<Rightarrow> response" where
  "getAgencyReports searchFilter page limit userRole user db =
     (if userRole \<noteq> ''agency'' then Threw (Some 403) (Error ''Access denied: Not an agency user'')
      else
        case agencyOfUser db user of
          None \<Rightarrow> Threw (Some 404) (Error ''No agency linked to this user.'')
        | Some agency \<Rightarrow>
            let found = rev (filter (\<lambda>r. agencyAssigned r = Some (agencyId agency) \<and> searchFilter r)
                               (reports db));
                total = length found;
                reports' = take limit (drop ((page - 1) * limit) found)
            in Json 200 (JObj
                 [(''success'', JBool True),
                  (''agency'', JStr (agencyName agency)),
                  (''currentPage'', JNum page),
                  (''totalPages'', JNum ((total + limit - 1) div limit)),
                  (''totalReports'', JNum total),
                  (''count'', JNum (length reports')),
                  (''data'', JArr (map (listed db) reports'))]))"

definition getAgencyReportById :: "idArg \<Rightarrow> objectId \<Rightarrow> db \<Rightarrow> response" where
  "getAgencyReportById reportId agencyUserId db =
     (case agencyOfUser db agencyUserId of
        None \<Rightarrow> Threw (Some 403) (Error ''You are not associated with any agency'')
      | Some agency \<Rightarrow>
          (case findById (filter (\<lambda>r. agencyAssigned r = Some (agencyId agency)) (reports db))
                  reportId of
             Inl e \<Rightarrow> Threw None e
           | Inr None \<Rightarrow>
               Threw (Some 404) (Error ''Report not found or not assigned to your agency'')
           | Inr (Some r) \<Rightarrow>
               Json 200 (JObj
                 [(''success'', JBool True),
                  (''data'', JObj (toJSON
                     (populateAgency (Some [''name'', ''email'', ''phone'']) db
                        (populateCategory (Some [''name'']) db (fetch False r)))))])))"

definition addAgencyMessage ::
  "crypto \<Rightarrow> env \<Rightarrow> idArg \<Rightarrow> string option \<Rightarrow> objectId \<Rightarrow> string option \<Rightarrow> db \<Rightarrow> response \<times> db" where
  "addAgencyMessage cr env reportId message' user ip db =
     (case findById (reports db) reportId of
        Inl e \<Rightarrow> (Threw None e, db)
      | Inr None \<Rightarrow> (Threw (Some 404) (Error ''Report not found.''), db)
      | Inr (Some r) \<Rightarrow>
          if \<not> truthy message' then (Threw (Some 400) (Error ''Message content is required.''), db)
          else
            (case agencyOfUser db user of
               None \<Rightarrow> (Threw (Some 404) (Error ''Agency not found for this user.''), db)
             | Some agency \<Rightarrow>
                 if agencyAssigned r = None \<or> agencyAssigned r \<noteq> Some (agencyId agency) then
                   (Threw (Some 403)
                      (Error ''Unauthorized: This report is not assigned to your agency.''), db)
                 else
                   let report = populateAgency (Some [''name'']) db (fetch False r);
                       commented = report\<lparr>comments := comments report @
                                     [\<lparr>role = ''agency'', message = str message',
                                       commentCreatedAt = now env\<rparr>]\<rparr>
                   in
                   (case save cr env db commented of
                      Inl e \<Rightarrow> (Threw None e, db)
                    | Inr (saved, db') \<Rightarrow>
                        (ok 201 ''Agency message added successfully.''
                           (JArr (map commentObject (comments saved))),
                         audit ''REPORT_UPDATED_BY_AGENCY''
                           (''Agency ('' @ agencyName agency @ '') added message to case '' @
                            str (caseID saved))
                           (rid saved) (Some user) ip db'))))"

text \<open>
  updateAgencyReportStatus. \<open>agencyId'\<close> is \<^verbatim>\<open>req.user?.id\<close>: the caller's own User id, as a
  string, or \<^verbatim>\<open>undefined\<close>.
\<close>

definition updateAgencyReportStatus ::
  "crypto \<Rightarrow> env \<Rightarrow> idArg \<Rightarrow> string option \<Rightarrow> objectId option \<Rightarrow> db \<Rightarrow> response \<times> db" where
  "updateAgencyReportStatus cr env reportId status' agencyId' db =
     (if \<not> truthy status' then (Threw (Some 400) (Error ''Status is required''), db)
      else
        case findById (reports db) reportId of
          Inl e \<Rightarrow> (Threw None e, db)
        | Inr None \<Rightarrow> (Threw (Some 404) (Error ''Report not found''), db)
        | Inr (Some r) \<Rightarrow>
            let report = fetch False r in
            if agencyAssigned report = None \<or> agencyAssigned report \<noteq> agencyId' then
              (Threw (Some 403) (Error ''You are not authorized to update this report''), db)
            else
              (case save cr env db (setStatus (str status') report) of
                 Inl e \<Rightarrow> (Threw None e, db)
               | Inr (saved, db') \<Rightarrow>
                   (ok 200 ''Status updated successfully'' (JObj (toJSON saved)), db')))"

section \<open>config/seedDefaults.js\<close>

text \<open>
  Run once at start-up, before the server listens. \<open>i\<close> and \<open>j\<close> are the ObjectIds minted
  for the two documents, should they be created.
\<close>

definition seedDefaults :: "objectId \<Rightarrow> objectId \<Rightarrow> db \<Rightarrow> db" where
  "seedDefaults i j db =
     (let db1 =
            (case find (\<lambda>c. categoryName c = ''uncategorised'') (categories db) of
               None \<Rightarrow> db\<lparr>categories := categories db @
                          [\<lparr>categoryId = i, categoryName = ''uncategorised'',
                            categoryDescription = ''Uncategorized reports''\<rparr>]\<rparr>
             | Some c \<Rightarrow> db)
      in case find (\<lambda>a. agencyName a = ''unassigned'') (agencies db1) of
           None \<Rightarrow> db1\<lparr>agencies := agencies db1 @
                      [\<lparr>agencyId = j, agencyName = ''unassigned'', agencyEmail = None,
                        agencyPhone = None, agencyDescription = Some ''Unassigned reports'',
                        agencyUsers = [], agencyActive = True\<rparr>]\<rparr>
         | Some a \<Rightarrow> db1)"

section \<open>The server as a state machine\<close>

text \<open>
  One constructor per route of the API that reads or writes reports, with what the
  handler reads from the request and from outside (\<open>env\<close>).
\<close>

datatype request =
    CreateReport env "string \<rightharpoonup> string" "upload list" "string option"
  | GetReportByPassword "string option"
  | AddWhistleblowerMessage env "string option" "string option" "upload list" "string option"
  | GetAllReports "report \<Rightarrow> bool" nat nat
  | GetUnassignedReports
  | GetReportById idArg
  | UpdateReportCategory env idArg idArg "string option"
  | AssignReportToAgency env idArg idArg "string option"
  | UpdateReportStatus env idArg "string option" "string option"
  | AddAdminMessage env idArg "string option" "objectId option" "string option"
  | DeleteCategory idArg
  | DeleteAgency idArg
  | GetAgencyReports "report \<Rightarrow> bool" nat nat string objectId
  | GetAgencyReportById idArg objectId
  | AddAgencyMessage env idArg "string option" objectId "string option"
  | UpdateAgencyReportStatus env idArg "string option" "objectId option"

fun handle :: "crypto \<Rightarrow> request \<Rightarrow> db \<Rightarrow> response \<times> db" where
  "handle cr (CreateReport env body files ip) db = createReport cr env body files ip db"
| "handle cr (GetReportByPassword pw) db = (fst (getReportByPassword cr pw db), db)"
| "handle cr (AddWhistleblowerMessage env pw msg files ip) db =
     (case addWhistleblowerMessage cr env pw msg files ip db of (res, db', calls) \<Rightarrow> (res, db'))"
| "handle cr (GetAllReports searchFilter page limit) db =
     (getAllReports searchFilter page limit db, db)"
| "handle cr GetUnassignedReports db = (getUnassignedReports db, db)"
| "handle cr (GetReportById i) db = (getReportById i db, db)"
| "handle cr (UpdateReportCategory env i c ip) db = updateReportCategory cr env i c ip db"
| "handle cr (AssignReportToAgency env i a ip) db = assignReportToAgency cr env i a ip db"
| "handle cr (UpdateReportStatus env i st ip) db = updateReportStatus cr env i st ip db"
| "handle cr (AddAdminMessage env i msg user ip) db = addAdminMessage cr env i msg user ip db"
| "handle cr (DeleteCategory i) db = deleteCategory i db"
| "handle cr (DeleteAgency i) db = deleteAgency i db"
| "handle cr (GetAgencyReports searchFilter page limit userRole user) db =
     (getAgencyReports searchFilter page limit userRole user db, db)"
| "handle cr (GetAgencyReportById i user) db = (getAgencyReportById i user db, db)"
| "handle cr (AddAgencyMessage env i msg user ip) db = addAgencyMessage cr env i msg user ip db"
| "handle cr (UpdateAgencyReportStatus env i st user) db =
     updateAgencyReportStatus cr env i st user db"

fun run :: "crypto \<Rightarrow> request list \<Rightarrow> db \<Rightarrow> db" where
  "run cr [] db = db"
| "run cr (q # qs) db = run cr qs (snd (handle cr q db))"

text \<open>
  The secrets issued along a run, one per report created, in the order of creation: the
  \<^verbatim>\<open>_id\<close> of the report and the plaintext returned in its creation response.
\<close>

fun issuedBy :: "request \<Rightarrow> db \<Rightarrow> db \<Rightarrow> (objectId \<times> string) list" where
  "issuedBy (CreateReport env body files ip) db db' =
     (if reports db' = reports db then [] else [(newObjectId env, generatePassword env)])"
| "issuedBy q db db' = []"

fun issued :: "crypto \<Rightarrow> request list \<Rightarrow> db \<Rightarrow> (objectId \<times> string) list" where
  "issued cr [] db = []"
| "issued cr (q # qs) db =
     (let db' = snd (handle cr q db) in issuedBy q db db' @ issued cr qs db')"

text \<open>Where a key occurs in a JSON value, at any depth.\<close>

primrec mentions :: "string \<Rightarrow> json \<Rightarrow> bool" where
  "mentions k JNull = False"
| "mentions k (JBool b) = False"
| "mentions k (JNum n) = False"
| "mentions k (JStr s) = False"
| "mentions k (JId i) = False"
| "mentions k (JDate d) = False"
| "mentions k (JArr xs) = list_ex id (map (mentions k) xs)"
| "mentions k (JObj kvs) = list_ex (\<lambda>kv. fst kv = k \<or> snd kv) (map (map_prod id (mentions k)) kvs)"

definition reveals :: "string \<Rightarrow> response \<Rightarrow> bool" where
  "reveals k res = (case res of Json code body \<Rightarrow> mentions k body | Threw code e \<Rightarrow> False)"

definition statusCode :: "response \<Rightarrow> nat option" where
  "statusCode res = (case res of Json code body \<Rightarrow> Some code | Threw code e \<Rightarrow> code)"

section \<open>Sample data\<close>

text \<open>
  A stand-in for the hash functions (the digest tags its input, the slow hash is ideal and
  ignores its salt), two moments of the outside world, and the database after start-up
  and after one and two submissions.
\<close>

definition toyCrypto :: crypto where
  "toyCrypto = \<lparr>sha256 = (\<lambda>p. ''sha256:'' @ p), bcryptHash = (\<lambda>p s. p),
                 bcryptCompare = (\<lambda>c h. c = h)\<rparr>"

definition envA :: env where
  "envA = \<lparr>now = 1000, fullYear = 2025, randomBytes = (0xA9, 0xF4, 0xC2), mathRandom = 523,
            genSalt = ''saltA'', newObjectId = 1\<rparr>"

definition envB :: env where
  "envB = \<lparr>now = 2000, fullYear = 2025, randomBytes = (0x0B, 0x5E, 0x77), mathRandom = 41,
            genSalt = ''saltB'', newObjectId = 2\<rparr>"

definition anonymousBody :: "string \<rightharpoonup> string" where
  "anonymousBody = [''title'' \<mapsto> ''Broken streetlight'', ''description'' \<mapsto> ''vandalized'',
                    ''reporterType'' \<mapsto> ''anonymous'']"

definition confidentialBody :: "string \<rightharpoonup> string" where
  "confidentialBody = [''title'' \<mapsto> ''Cut cable'', ''description'' \<mapsto> ''stolen'',
                       ''reporterType'' \<mapsto> ''confidential'', ''reporterName'' \<mapsto> ''Ada'',
                       ''reporterEmail'' \<mapsto> ''ada@example.org'']"

definition emptyDb :: db where
  "emptyDb = \<lparr>reports = [], categories = [], agencies = [], auditLogs = []\<rparr>"

definition seededDb :: db where
  "seededDb = seedDefaults 10 11 emptyDb"

definition dbOne :: db where
  "dbOne = snd (createReport toyCrypto envA anonymousBody [] None seededDb)"

definition dbTwo :: db where
  "dbTwo = snd (createReport toyCrypto envB confidentialBody [] None dbOne)"

definition reportOne :: report where
  "reportOne =
     \<lparr>rid = 1, caseID = Some ''LAG-2025-00001-623'', reporterType = ''anonymous'',
      reporterName = None, reporterEmail = None, reporterPhone = None,
      title = ''Broken streetlight'', description = ''vandalized'', status = ''pending'',
      agencyAssigned = Some 11, location = None, password = Some ''A9F4C2'',
      passwordKey = Some ''sha256:A9F4C2'', category = Some 10, isResolved = False,
      internalNotes = None, evidenceFiles = [], comments = [], history = []\<rparr>"

definition reportTwo :: report where
  "reportTwo =
     \<lparr>rid = 2, caseID = Some ''LAG-2025-00002-141'', reporterType = ''confidential'',
      reporterName = Some ''Ada'', reporterEmail = Some ''ada@example.org'', reporterPhone = None,
      title = ''Cut cable'', description = ''stolen'', status = ''pending'',
      agencyAssigned = Some 11, location = None, password = Some ''0B5E77'',
      passwordKey = Some ''sha256:0B5E77'', category = Some 10, isResolved = False,
      internalNotes = None, evidenceFiles = [], comments = [], history = []\<rparr>"

section \<open>What a request may do to the stored reports\<close>

text \<open>
  \<open>touched r r'\<close>: \<open>r'\<close> is \<open>r\<close> after one save of a fetched document. Only these paths
  can differ, the three lists only by growing at the end, and the history by at most one
  entry, added exactly when the status differs from the one stored.
\<close>

definition touched :: "report \<Rightarrow> report \<Rightarrow> bool" where
  "touched r r' \<longleftrightarrow>
     (\<exists>i s a c b es cs t.
        r' = r\<lparr>caseID := i, status := s, agencyAssigned := a, category := c, isResolved := b,
               evidenceFiles := evidenceFiles r @ es, comments := comments r @ cs,
               history := history r @
                 (if s \<noteq> status r then [\<lparr>historyStatus = s, historyUpdatedAt = t\<rparr>] else [])\<rparr> \<and>
        (truthy (caseID r) \<longrightarrow> i = caseID r))"

text \<open>\<open>edited r this\<close>: the document \<open>this\<close> is the stored report \<open>r\<close>, fetched and assigned to.\<close>

definition edited :: "report \<Rightarrow> document \<Rightarrow> bool" where
  "edited r this \<longleftrightarrow>
     \<not> isNew this \<and> modifiedStatus this = (status this \<noteq> status r) \<and>
     (\<exists>es cs. report.truncate this =
        r\<lparr>status := status this, agencyAssigned := agencyAssigned this,
          category := category this, isResolved := isResolved this,
          evidenceFiles := evidenceFiles r @ es, comments := comments r @ cs\<rparr>)"

definition stepped :: "report list \<Rightarrow> report list \<Rightarrow> bool" where
  "stepped rs rs' \<longleftrightarrow>
     rs' = rs \<or>
     (\<exists>r r'. r \<in> set rs \<and> touched r r' \<and> validate (fetch False r') \<and>
        rs' = map (\<lambda>x. if rid x = rid r then r' else x) rs)"

text \<open>The checks of createReport on the request body, and the document it saves.\<close>

definition accepted :: "(string \<rightharpoonup> string) \<Rightarrow> bool" where
  "accepted body \<longleftrightarrow>
     truthy (body ''title'') \<and> truthy (body ''description'') \<and>
     body ''reporterType'' \<in> set [Some ''anonymous'', Some ''confidential''] \<and>
     \<not> (body ''reporterType'' = Some ''anonymous'' \<and>
        (truthy (body ''reporterName'') \<or> truthy (body ''reporterEmail'') \<or>
         truthy (body ''reporterPhone''))) \<and>
     \<not> (body ''reporterType'' = Some ''confidential'' \<and>
        (\<not> truthy (body ''reporterName'') \<or> \<not> truthy (body ''reporterEmail'')))"

definition creating :: "crypto \<Rightarrow> env \<Rightarrow> (string \<rightharpoonup> string) \<Rightarrow> upload list \<Rightarrow> db \<Rightarrow> document" where
  "creating cr env body files db =
     preSaveHistory env (preSavePassword cr env (preSaveCaseID env db
       (newReport env body
          (case find (\<lambda>c. categoryName c = ''uncategorised'') (categories db) of
             None \<Rightarrow> None | Some c \<Rightarrow> Some (categoryId c))
          (case find (\<lambda>a. agencyName a = ''unassigned'') (agencies db) of
             None \<Rightarrow> None | Some a \<Rightarrow> Some (agencyId a))
          (map (\<lambda>file. \<lparr>filePath = uploadLocation file, fileType = mimetype file,
                        fileName = originalname file, uploadedAt = now env\<rparr>) files))))"

text \<open>\<open>minted cr env body db r\<close>: what is known of a report that createReport has just stored.\<close>

definition minted :: "crypto \<Rightarrow> env \<Rightarrow> (string \<rightharpoonup> string) \<Rightarrow> db \<Rightarrow> report \<Rightarrow> bool" where
  "minted cr env body db r \<longleftrightarrow>
     rid r = newObjectId env \<and>
     passwordKey r = Some (sha256 cr (generatePassword env)) \<and>
     password r = Some (bcryptHash cr (generatePassword env) (genSalt env)) \<and>
     rid r \<notin> set (map rid (reports db)) \<and>
     passwordKey r \<notin> set (map passwordKey (reports db)) \<and>
     status r = ''pending'' \<and> \<not> isResolved r \<and> history r = [] \<and> comments r = [] \<and>
     truthy (caseID r) \<and> validate (fetch False r) \<and>
     body ''reporterType'' = Some (reporterType r) \<and>
     reporterName r = body ''reporterName'' \<and>
     reporterEmail r = body ''reporterEmail'' \<and>
     reporterPhone r = body ''reporterPhone'' \<and>
     (reporterType r = ''anonymous'' \<longrightarrow>
        \<not> truthy (reporterName r) \<and> \<not> truthy (reporterEmail r) \<and> \<not> truthy (reporterPhone r)) \<and>
     category r = map_option categoryId
                    (find (\<lambda>c. categoryName c = ''uncategorised'') (categories db)) \<and>
     agencyAssigned r = map_option agencyId
                          (find (\<lambda>a. agencyName a = ''unassigned'') (agencies db))"

section \<open>Invariants of the stored reports\<close>

text \<open>
  What the unique indexes and the validators keep true of the collection, and how the
  stored credentials relate to the secrets issued: report number \<open>i\<close> carries the id of
  the \<open>i\<close>-th creation, the digest of its plaintext, and a bcrypt hash of it.
\<close>

definition sane :: "db \<Rightarrow> bool" where
  "sane db \<longleftrightarrow>
     distinct (map rid (reports db)) \<and> distinct (map passwordKey (reports db)) \<and>
     (\<forall>r \<in> set (reports db). validate (fetch False r) \<and> truthy (caseID r))"

definition holder :: "crypto \<Rightarrow> objectId \<times> string \<Rightarrow> report \<Rightarrow> bool" where
  "holder cr ip r \<longleftrightarrow>
     rid r = fst ip \<and> passwordKey r = Some (sha256 cr (snd ip)) \<and>
     (\<exists>s. password r = Some (bcryptHash cr (snd ip) s)) \<and> length (snd ip) = 6"

definition issuedTo :: "crypto \<Rightarrow> (objectId \<times> string) list \<Rightarrow> db \<Rightarrow> bool" where
  "issuedTo cr iss db \<longleftrightarrow> list_all2 (holder cr) iss (reports db)"

section \<open>What the theorems ask of the hash functions\<close>



definition retrieved :: "db \<Rightarrow> report \<Rightarrow> response" where
  "retrieved db r =
     Json 200 (JObj
       [(''success'', JBool True),
        (''message'', JStr ''Report retrieved successfully.''),
        (''data'', JObj (getPublicData
           (populateAgency (Some [''name'', ''description'']) db
              (populateCategory (Some [''name'', ''description'']) db (fetch True r)))))])"

definition sampleRun :: "request list" where
  "sampleRun = [CreateReport envA anonymousBody [] None, CreateReport envB confidentialBody [] None,
                UpdateReportStatus envB (Oid 1) (Some ''resolved'') None]"






definition orphanRun :: "request list" where
  "orphanRun = [DeleteCategory (Oid 10), DeleteAgency (Oid 11),
                CreateReport envA anonymousBody [] None]"

section \<open>Following one report through a run\<close>

text \<open>
  \<open>statusLog cr k qs db\<close>: the status of report \<open>k\<close> after each request of \<open>qs\<close>, from the
  request that created it on. \<open>changes\<close> counts the places where a list changes value.
\<close>

fun statusLog :: "crypto \<Rightarrow> objectId \<Rightarrow> request list \<Rightarrow> db \<Rightarrow> string list" where
  "statusLog cr k [] db = []"
| "statusLog cr k (q # qs) db =
     (let db' = snd (handle cr q db)
      in (case find (\<lambda>r. rid r = k) (reports db') of None \<Rightarrow> [] | Some r \<Rightarrow> [status r]) @
         statusLog cr k qs db')"

fun changes :: "string list \<Rightarrow> nat" where
  "changes (a # b # xs) = (if a \<noteq> b then 1 else 0) + changes (b # xs)"
| "changes xs = 0"
section \<open>Documents and saving: basic facts\<close>

lemma truncate_fetch [simp]: "report.truncate (fetch b r) = r"
  by (simp add: fetch_def report.defs document.defs)

lemma fetch_fields [simp]:
  "rid (fetch b r) = rid r" "caseID (fetch b r) = caseID r"
  "reporterType (fetch b r) = reporterType r"
  "reporterName (fetch b r) = reporterName r"
  "reporterEmail (fetch b r) = reporterEmail r"
  "reporterPhone (fetch b r) = reporterPhone r"
  "title (fetch b r) = title r" "description (fetch b r) = description r"
  "status (fetch b r) = status r" "agencyAssigned (fetch b r) = agencyAssigned r"
  "location (fetch b r) = location r" "password (fetch b r) = password r"
  "passwordKey (fetch b r) = passwordKey r" "category (fetch b r) = category r"
  "isResolved (fetch b r) = isResolved r" "internalNotes (fetch b r) = internalNotes r"
  "evidenceFiles (fetch b r) = evidenceFiles r" "comments (fetch b r) = comments r"
  "history (fetch b r) = history r"
  "isNew (fetch b r) = False" "plainPassword (fetch b r) = None"
  "modifiedStatus (fetch b r) = False" "selectPassword (fetch b r) = b"
  "populatedCategory (fetch b r) = None" "populatedAgency (fetch b r) = None"
  by (simp_all add: fetch_def report.defs document.defs)

lemma truncate_fields [simp]:
  "rid (report.truncate d) = rid d" "caseID (report.truncate d) = caseID d"
  "reporterType (report.truncate d) = reporterType d"
  "reporterName (report.truncate d) = reporterName d"
  "reporterEmail (report.truncate d) = reporterEmail d"
  "reporterPhone (report.truncate d) = reporterPhone d"
  "title (report.truncate d) = title d" "description (report.truncate d) = description d"
  "status (report.truncate d) = status d" "agencyAssigned (report.truncate d) = agencyAssigned d"
  "location (report.truncate d) = location d" "password (report.truncate d) = password d"
  "passwordKey (report.truncate d) = passwordKey d" "category (report.truncate d) = category d"
  "isResolved (report.truncate d) = isResolved d"
  "internalNotes (report.truncate d) = internalNotes d"
  "evidenceFiles (report.truncate d) = evidenceFiles d" "comments (report.truncate d) = comments d"
  "history (report.truncate d) = history d"
  by (simp_all add: report.defs)

lemma hooks_existing:
  "\<not> isNew this \<Longrightarrow> preSavePassword cr env this = this"
  "isNew (preSaveCaseID env db this) = isNew this"
  "isNew (preSaveHistory env this) = isNew this"
  "rid (preSaveCaseID env db this) = rid this"
  "rid (preSaveHistory env this) = rid this"
  by (simp_all add: preSavePassword_def preSaveCaseID_def preSaveHistory_def Let_def)

lemma save_invalid: "\<not> validate this \<Longrightarrow> save cr env db this = Inl ValidationError"
  by (simp add: save_def)

lemma save_existing_eq:
  assumes "\<not> isNew this" "validate this"
  shows "save cr env db this =
     Inr ((preSaveHistory env (preSaveCaseID env db this))\<lparr>modifiedStatus := False\<rparr>,
          db\<lparr>reports := map (\<lambda>r. if rid r = rid this
                                  then report.truncate (preSaveHistory env (preSaveCaseID env db this))
                                  else r) (reports db)\<rparr>)"
  using assms by (simp add: save_def Let_def hooks_existing)



lemma dbOne_reports: "reports dbOne = [reportOne]"
  by code_simp

lemma dbTwo_reports: "reports dbTwo = [reportOne, reportTwo]"
  unfolding dbTwo_def by code_simp

section \<open>One save, one request\<close>

lemma touched_refl: "touched r r"
  unfolding touched_def
  apply (rule exI [of _ "caseID r"], rule exI [of _ "status r"], rule exI [of _ "agencyAssigned r"],
      rule exI [of _ "category r"], rule exI [of _ "isResolved r"], rule exI [of _ "[]"],
      rule exI [of _ "[]"], rule exI [of _ "0"])
  apply simp
  done

lemma truncate_hooks:
  "report.truncate (preSaveHistory env (preSaveCaseID env db this)) =
     (report.truncate this)\<lparr>caseID := caseID (preSaveCaseID env db this),
       history := history this @
         (if modifiedStatus this
          then [\<lparr>historyStatus = status this, historyUpdatedAt = now env\<rparr>] else [])\<rparr>"
  by (simp add: preSaveHistory_def preSaveCaseID_def Let_def report.defs)

lemma caseID_hook: "truthy (caseID this) \<Longrightarrow> caseID (preSaveCaseID env db this) = caseID this"
  by (simp add: preSaveCaseID_def)

lemma validate_fetch:
  "validate (fetch b (report.truncate d)) = validate d"
  by (simp add: validate_def)

lemma validate_hooks: "validate (preSaveHistory env (preSaveCaseID env db this)) = validate this"
  by (simp add: validate_def preSaveHistory_def preSaveCaseID_def Let_def)

lemma edited_touched:
  assumes "edited r this"
  shows "touched r (report.truncate (preSaveHistory env (preSaveCaseID env db this)))"
proof -
  from assms obtain es cs where
    t: "report.truncate this =
        r\<lparr>status := status this, agencyAssigned := agencyAssigned this,
          category := category this, isResolved := isResolved this,
          evidenceFiles := evidenceFiles r @ es, comments := comments r @ cs\<rparr>"
    and m: "modifiedStatus this = (status this \<noteq> status r)"
    by (auto simp: edited_def)
  have h: "history this = history r" and c: "caseID this = caseID r"
    using arg_cong [OF t, of history] arg_cong [OF t, of caseID] by simp_all
  show ?thesis
    unfolding touched_def truncate_hooks t
    apply (rule exI [of _ "caseID (preSaveCaseID env db this)"], rule exI [of _ "status this"],
        rule exI [of _ "agencyAssigned this"], rule exI [of _ "category this"],
        rule exI [of _ "isResolved this"], rule exI [of _ es], rule exI [of _ cs],
        rule exI [of _ "now env"])
    using m h c by (simp add: caseID_hook)
qed

lemma save_edited:
  assumes "save cr env db this = Inr (saved, db')" and "edited r this" and "rid this = k"
  shows "\<exists>r'. touched r r' \<and> validate (fetch False r') \<and>
           db' = db\<lparr>reports := map (\<lambda>x. if rid x = k then r' else x) (reports db)\<rparr>"
proof -
  from assms(2) have n: "\<not> isNew this" by (simp add: edited_def)
  from assms(1) have v: "validate this" by (simp add: save_def split: if_splits)
  from assms(1) save_existing_eq [OF n v, of cr env db] assms(3)
  have "db' = db\<lparr>reports := map (\<lambda>x. if rid x = k
          then report.truncate (preSaveHistory env (preSaveCaseID env db this)) else x) (reports db)\<rparr>"
    by simp
  moreover have "validate (fetch False (report.truncate (preSaveHistory env (preSaveCaseID env db this))))"
    using v by (simp add: validate_fetch validate_hooks)
  ultimately show ?thesis using edited_touched [OF assms(2)] by blast
qed

lemma edited_examples:
  "edited r (setStatus s (fetch b r))"
  "edited r (setStatus s ((fetch b r)\<lparr>isResolved := f\<rparr>))"
  "edited r ((fetch b r)\<lparr>agencyAssigned := a\<rparr>)"
  "edited r ((fetch b r)\<lparr>category := c\<rparr>)"
  "edited r ((fetch b r)\<lparr>comments := comments (fetch b r) @ cs\<rparr>)"
  "edited r ((populateAgency sel db (fetch b r))\<lparr>comments := comments (populateAgency sel db (fetch b r)) @ cs\<rparr>)"
  "edited r ((fetch b r)\<lparr>evidenceFiles := evidenceFiles (fetch b r) @ es, comments := comments (fetch b r) @ cs\<rparr>)"
proof -
  have e: "\<And>d es cs. \<not> isNew d \<Longrightarrow> modifiedStatus d = (status d \<noteq> status r) \<Longrightarrow>
      report.truncate d = r\<lparr>status := status d, agencyAssigned := agencyAssigned d,
          category := category d, isResolved := isResolved d,
          evidenceFiles := evidenceFiles r @ es, comments := comments r @ cs\<rparr> \<Longrightarrow> edited r d"
    unfolding edited_def by blast
  show "edited r (setStatus s (fetch b r))"
    by (rule e [where es="[]" and cs="[]"]; cases r; simp add: setStatus_def fetch_def report.defs document.defs)
  show "edited r (setStatus s ((fetch b r)\<lparr>isResolved := f\<rparr>))"
    by (rule e [where es="[]" and cs="[]"]; cases r; simp add: setStatus_def fetch_def report.defs document.defs)
  show "edited r ((fetch b r)\<lparr>agencyAssigned := a\<rparr>)"
    by (rule e [where es="[]" and cs="[]"]; cases r; simp add: fetch_def report.defs document.defs)
  show "edited r ((fetch b r)\<lparr>category := c\<rparr>)"
    by (rule e [where es="[]" and cs="[]"]; cases r; simp add: fetch_def report.defs document.defs)
  show "edited r ((fetch b r)\<lparr>comments := comments (fetch b r) @ cs\<rparr>)"
    by (rule e [where es="[]" and cs=cs]; cases r; simp add: fetch_def report.defs document.defs)
  show "edited r ((populateAgency sel db (fetch b r))\<lparr>comments := comments (populateAgency sel db (fetch b r)) @ cs\<rparr>)"
    by (rule e [where es="[]" and cs=cs]; cases r;
        simp add: populateAgency_def fetch_def report.defs document.defs split: option.splits)
  show "edited r ((fetch b r)\<lparr>evidenceFiles := evidenceFiles (fetch b r) @ es, comments := comments (fetch b r) @ cs\<rparr>)"
    by (rule e [where es=es and cs=cs]; cases r; simp add: fetch_def report.defs document.defs)
qed

lemma stepped_refl: "stepped rs rs"
  by (simp add: stepped_def)

lemma find_rid: "find (\<lambda>x. rid x = k) rs = Some r \<Longrightarrow> rid r = k \<and> r \<in> set rs"
  by (auto simp: find_Some_iff)

lemma stepped_save:
  assumes "edited r this" and "rid this = rid r" and "r \<in> set (reports db)"
    and "\<And>saved db'. reports (after saved db') = reports db'"
  shows "stepped (reports db)
           (reports (snd (case save cr env db this of
                            Inl e \<Rightarrow> (err e, db)
                          | Inr (saved, db') \<Rightarrow> (res saved db', after saved db'))))"
proof (cases "save cr env db this")
  case (Inl e)
  then show ?thesis by (simp add: stepped_refl)
next
  case (Inr p)
  obtain saved db' where p: "p = (saved, db')" by (cases p)
  from save_edited [OF Inr [unfolded p] assms(1,2)] obtain r' where
    "touched r r'" "validate (fetch False r')"
    "db' = db\<lparr>reports := map (\<lambda>x. if rid x = rid r then r' else x) (reports db)\<rparr>"
    by blast
  with assms(3,4) Inr p show ?thesis
    unfolding stepped_def
    by (intro disjI2 exI [of _ r] exI [of _ r']) simp
qed

lemma flagged_eq:
  "(if c then d\<lparr>isResolved := True\<rparr> else if c' then d else d\<lparr>isResolved := False\<rparr>) =
   d\<lparr>isResolved := (if c then True else if c' then isResolved d else False)\<rparr>"
  by simp

lemma reports_audit [simp]: "reports (audit a d t u i db) = reports db"
  "categories (audit a d t u i db) = categories db" "agencies (audit a d t u i db) = agencies db"
  by (simp_all add: audit_def)

lemma findById_cases:
  obtains (err) e where "findById rs i = Inl e"
  | (none) "findById rs i = Inr None"
  | (some) r where "findById rs i = Inr (Some r)" "r \<in> set rs" "i = Oid (rid r)"
      "find (\<lambda>x. rid x = rid r) rs = Some r"
proof (cases i)
  case NoId
  then show ?thesis using none by (simp add: findById_def)
next
  case BadId
  then show ?thesis using err by (simp add: findById_def)
next
  case (Oid k)
  show ?thesis
  proof (cases "find (\<lambda>x. rid x = k) rs")
    case None
    then show ?thesis using none Oid by (simp add: findById_def)
  next
    case (Some r)
    with find_rid [OF Some] show ?thesis using some [of r] Oid by (simp add: findById_def)
  qed
qed

lemma updateReportStatus_stepped:
  "stepped (reports db) (reports (snd (updateReportStatus cr env i st ip db)))"
proof (cases i)
  case (Oid k)
  show ?thesis
  proof (cases "st \<in> set (map Some allowedStatuses)")
    case False
    then show ?thesis using Oid by (simp add: updateReportStatus_def stepped_refl)
  next
    case True
    show ?thesis
    proof (cases "find (\<lambda>r. rid r = k) (reports db)")
      case None
      then show ?thesis using Oid True by (simp add: updateReportStatus_def stepped_refl)
    next
      case (Some r)
      have e: "edited r (setStatus (str st) ((fetch False r)\<lparr>isResolved :=
                  (if st = Some ''resolved'' then True
                   else if st = Some ''closed'' then isResolved (fetch False r) else False)\<rparr>))"
        by (rule edited_examples)
      have k: "rid (setStatus (str st) ((fetch False r)\<lparr>isResolved :=
                  (if st = Some ''resolved'' then True
                   else if st = Some ''closed'' then isResolved (fetch False r) else False)\<rparr>)) = rid r"
        by (simp add: setStatus_def)
      have n: "\<not> st \<notin> set (map Some allowedStatuses)" using True by simp
      show ?thesis
        unfolding updateReportStatus_def Oid idArg.case Some option.case Let_def flagged_eq
          if_not_P [OF n]
        by (rule stepped_save [OF e k]) (simp_all add: find_rid [OF Some])
    qed
  qed
qed (simp_all add: updateReportStatus_def stepped_refl)

lemma updateAgencyReportStatus_stepped:
  "stepped (reports db) (reports (snd (updateAgencyReportStatus cr env i st user db)))"
proof (cases "truthy st")
  case False
  then show ?thesis by (simp add: updateAgencyReportStatus_def stepped_refl)
next
  case True
  show ?thesis
  proof (cases rule: findById_cases [of "reports db" i])
    case (err e)
    then show ?thesis using True by (simp add: updateAgencyReportStatus_def stepped_refl)
  next
    case none
    then show ?thesis using True by (simp add: updateAgencyReportStatus_def stepped_refl)
  next
    case (some r)
    show ?thesis
    proof (cases "agencyAssigned (fetch False r) = None \<or> agencyAssigned (fetch False r) \<noteq> user")
      case True
      then show ?thesis using \<open>truthy st\<close> some(1)
        by (simp add: updateAgencyReportStatus_def stepped_refl)
    next
      case False
      have t: "\<not> \<not> truthy st" using \<open>truthy st\<close> by simp
      have k: "rid (setStatus (str st) (fetch False r)) = rid r" by (simp add: setStatus_def)
      show ?thesis
        unfolding updateAgencyReportStatus_def if_not_P [OF t] some(1) sum.case option.case Let_def
          if_not_P [OF False]
        by (rule stepped_save [OF edited_examples(1) k some(2)]) simp
    qed
  qed
qed

lemma assignReportToAgency_stepped:
  "stepped (reports db) (reports (snd (assignReportToAgency cr env i a ip db)))"
proof (cases rule: findById_cases [of "reports db" i])
  case (some r)
  show ?thesis
  proof (cases "findAgencyById (agencies db) a")
    case (Inl e)
    then show ?thesis using some(1) by (simp add: assignReportToAgency_def stepped_refl)
  next
    case (Inr x)
    show ?thesis
    proof (cases x)
      case None
      then show ?thesis using some(1) Inr by (simp add: assignReportToAgency_def stepped_refl)
    next
      case (Some agency)
      have k: "rid ((fetch False r)\<lparr>agencyAssigned := Some (agencyId agency)\<rparr>) = rid r" by simp
      show ?thesis
        unfolding assignReportToAgency_def some(1) Inr Some sum.case option.case
        by (rule stepped_save [OF edited_examples(3) k some(2)]) simp
    qed
  qed
qed (simp_all add: assignReportToAgency_def stepped_refl)

lemma updateReportCategory_stepped:
  "stepped (reports db) (reports (snd (updateReportCategory cr env i c ip db)))"
proof (cases rule: findById_cases [of "reports db" i])
  case (some r)
  show ?thesis
  proof (cases "findCategoryById (categories db) c")
    case (Inl e)
    then show ?thesis using some(1) by (simp add: updateReportCategory_def stepped_refl)
  next
    case (Inr x)
    show ?thesis
    proof (cases x)
      case None
      then show ?thesis using some(1) Inr by (simp add: updateReportCategory_def stepped_refl)
    next
      case (Some cat)
      have k: "rid ((fetch False r)\<lparr>category := Some (categoryId cat)\<rparr>) = rid r" by simp
      show ?thesis
        unfolding updateReportCategory_def some(1) Inr Some sum.case option.case
        by (rule stepped_save [OF edited_examples(4) k some(2)]) simp
    qed
  qed
qed (simp_all add: updateReportCategory_def stepped_refl)

lemma addAdminMessage_stepped:
  "stepped (reports db) (reports (snd (addAdminMessage cr env i msg user ip db)))"
proof (cases rule: findById_cases [of "reports db" i])
  case (some r)
  show ?thesis
  proof (cases "truthy msg")
    case False
    then show ?thesis using some(1) by (simp add: addAdminMessage_def stepped_refl)
  next
    case True
    have t: "\<not> \<not> truthy msg" using True by simp
    have k: "\<And>cs. rid ((fetch False r)\<lparr>comments := cs\<rparr>) = rid r" by simp
    show ?thesis
      unfolding addAdminMessage_def some(1) sum.case option.case if_not_P [OF t] Let_def
      by (rule stepped_save [OF edited_examples(5) k some(2)]) simp
  qed
qed (simp_all add: addAdminMessage_def stepped_refl)

lemma addAgencyMessage_stepped:
  "stepped (reports db) (reports (snd (addAgencyMessage cr env i msg user ip db)))"
proof (cases rule: findById_cases [of "reports db" i])
  case (some r)
  show ?thesis
  proof (cases "truthy msg")
    case False
    then show ?thesis using some(1) by (simp add: addAgencyMessage_def stepped_refl)
  next
    case True
    have t: "\<not> \<not> truthy msg" using True by simp
    show ?thesis
    proof (cases "agencyOfUser db user")
      case None
      then show ?thesis using some(1) True by (simp add: addAgencyMessage_def stepped_refl)
    next
      case (Some agency)
      show ?thesis
      proof (cases "agencyAssigned r = None \<or> agencyAssigned r \<noteq> Some (agencyId agency)")
        case True
        then show ?thesis using some(1) \<open>truthy msg\<close> Some
          by (simp add: addAgencyMessage_def stepped_refl)
      next
        case False
        have k: "\<And>cs. rid ((populateAgency (Some [''name'']) db (fetch False r))\<lparr>comments := cs\<rparr>) = rid r"
          by (simp add: populateAgency_def split: option.splits)
        show ?thesis
          unfolding addAgencyMessage_def some(1) sum.case option.case if_not_P [OF t] Let_def Some
            if_not_P [OF False]
          by (rule stepped_save [OF edited_examples(6) k some(2)]) simp
      qed
    qed
  qed
qed (simp_all add: addAgencyMessage_def stepped_refl)



lemma findMatch_in: "findMatch cr pw ds = (Inr (Some m), calls) \<Longrightarrow> m \<in> set ds"
  by (induction ds arbitrary: calls) (auto split: sum.splits if_splits prod.splits)

lemma addWhistleblowerMessage_stepped:
  "stepped (reports db) (reports (fst (snd (addWhistleblowerMessage cr env pw msg files ip db))))"
proof (cases "\<not> truthy pw \<or> \<not> truthy msg")
  case True
  then show ?thesis by (simp add: addWhistleblowerMessage_def stepped_refl)
next
  case False
  obtain res calls where f: "findMatch cr (str pw) (map (fetch True) (reports db)) = (res, calls)"
    by (cases "findMatch cr (str pw) (map (fetch True) (reports db))")
  show ?thesis
  proof (cases res)
    case (Inl e)
    then show ?thesis using False f by (simp add: addWhistleblowerMessage_def stepped_refl)
  next
    case (Inr x)
    show ?thesis
    proof (cases x)
      case None
      then show ?thesis using False f Inr by (simp add: addWhistleblowerMessage_def stepped_refl)
    next
      case (Some m)
      from findMatch_in [OF f [unfolded Inr Some]] obtain r where
        r: "r \<in> set (reports db)" and m: "m = fetch True r" by auto
      have k: "\<And>es cs. rid ((fetch True r)\<lparr>evidenceFiles := es, comments := cs\<rparr>) = rid r" by simp
      have "stepped (reports db)
           (reports (snd (case save cr env db
              ((fetch True r)\<lparr>evidenceFiles := evidenceFiles (fetch True r) @
                   map (\<lambda>file. \<lparr>filePath = uploadLocation file,
                                 fileType = takeWhile (\<lambda>c. c \<noteq> CHR ''/'') (mimetype file),
                                 fileName = originalname file, uploadedAt = now env\<rparr>) files,
                 comments := comments (fetch True r) @
                   [\<lparr>role = ''reporter'', message = str msg, commentCreatedAt = now env\<rparr>]\<rparr>) of
                            Inl e \<Rightarrow> (Threw None e, db)
                          | Inr (saved, db') \<Rightarrow> (Json 201 (JObj
                    [(''success'', JBool True),
                     (''message'', JStr ''Message added successfully.''),
                     (''data'', JObj
                        [(''comments'', JArr (map commentObject (comments saved))),
                         (''evidenceFiles'', JArr (map evidenceObject (evidenceFiles saved)))])]), audit ''REPORT_UPDATED_BY_REPORTER''
                    (''Whistle-blower added message to case '' @ str (caseID saved))
                    (rid saved) None ip db'))))"
        by (rule stepped_save [OF edited_examples(7) k r]) simp
      then show ?thesis
        using False f Inr Some m
        by (simp add: addWhistleblowerMessage_def Let_def split: sum.splits prod.splits)
    qed
  qed
qed

lemma createReport_rejected:
  "\<not> accepted body \<Longrightarrow> snd (createReport cr env body files ip db) = db \<and>
     statusCode (fst (createReport cr env body files ip db)) = Some 400"
  by (auto simp add: createReport_def accepted_def Let_def reject_def statusCode_def)

lemma createReport_accepted:
  "accepted body \<Longrightarrow>
   createReport cr env body files ip db =
     (case save cr env db
             (newReport env body
                (case find (\<lambda>c. categoryName c = ''uncategorised'') (categories db) of
                   None \<Rightarrow> None | Some c \<Rightarrow> Some (categoryId c))
                (case find (\<lambda>a. agencyName a = ''unassigned'') (agencies db) of
                   None \<Rightarrow> None | Some a \<Rightarrow> Some (agencyId a))
                (map (\<lambda>file. \<lparr>filePath = uploadLocation file, fileType = mimetype file,
                              fileName = originalname file, uploadedAt = now env\<rparr>) files)) of
        Inl e \<Rightarrow> (Threw None e, db)
      | Inr (report, db') \<Rightarrow>
          (Json 201 (JObj
             ([(''success'', JBool True),
               (''message'', JStr ''Report submitted successfully''),
               (''data'', JObj (getPublicData report))] @
              optKey ''casePassword'' JStr (plainPassword report))),
           audit ''REPORT_CREATED''
             (''Report created with caseID: '' @ str (caseID report))
             (rid report) None ip db'))"
  unfolding createReport_def accepted_def Let_def
  by (simp only: de_Morgan_conj de_Morgan_disj not_not if_False if_True split: if_splits) auto

lemma creating_fields:
  "rid (creating cr env body files db) = newObjectId env"
  "passwordKey (creating cr env body files db) = Some (sha256 cr (generatePassword env))"
  "password (creating cr env body files db) = Some (bcryptHash cr (generatePassword env) (genSalt env))"
  "plainPassword (creating cr env body files db) = Some (generatePassword env)"
  "status (creating cr env body files db) = ''pending''"
  "isResolved (creating cr env body files db) = False"
  "history (creating cr env body files db) = []"
  "comments (creating cr env body files db) = []"
  "isNew (creating cr env body files db)"
  "reporterType (creating cr env body files db) = str (body ''reporterType'')"
  "reporterName (creating cr env body files db) = body ''reporterName''"
  "reporterEmail (creating cr env body files db) = body ''reporterEmail''"
  "reporterPhone (creating cr env body files db) = body ''reporterPhone''"
  "title (creating cr env body files db) = str (body ''title'')"
  "description (creating cr env body files db) = str (body ''description'')"
  "category (creating cr env body files db) =
     map_option categoryId (find (\<lambda>c. categoryName c = ''uncategorised'') (categories db))"
  "agencyAssigned (creating cr env body files db) =
     map_option agencyId (find (\<lambda>a. agencyName a = ''unassigned'') (agencies db))"
  "evidenceFiles (creating cr env body files db) =
     map (\<lambda>file. \<lparr>filePath = uploadLocation file, fileType = mimetype file,
                   fileName = originalname file, uploadedAt = now env\<rparr>) files"
  "truthy (caseID (creating cr env body files db))"
  by (simp_all add: creating_def preSaveHistory_def preSavePassword_def preSaveCaseID_def
      newReport_def Let_def truthy_def split: option.splits)

lemma save_new:
  assumes "isNew this" "validate this"
  shows "save cr env db this =
    (if duplicateKey db (preSaveHistory env (preSavePassword cr env (preSaveCaseID env db this)))
     then Inl DuplicateKeyError
     else Inr ((preSaveHistory env (preSavePassword cr env (preSaveCaseID env db this)))
                 \<lparr>isNew := False, modifiedStatus := False\<rparr>,
               db\<lparr>reports := reports db @
                 [report.truncate (preSaveHistory env (preSavePassword cr env
                     (preSaveCaseID env db this)))]\<rparr>))"
proof -
  have "isNew (preSaveHistory env (preSavePassword cr env (preSaveCaseID env db this)))"
    using assms(1)
    by (simp add: preSaveHistory_def preSavePassword_def preSaveCaseID_def Let_def)
  then show ?thesis using assms(2) by (simp add: save_def Let_def)
qed

lemma validate_creating:
  "validate (creating cr env body files db) =
   validate (newReport env body c a
     (map (\<lambda>file. \<lparr>filePath = uploadLocation file, fileType = mimetype file,
                   fileName = originalname file, uploadedAt = now env\<rparr>) files))"
  by (simp add: validate_def creating_fields) (simp add: newReport_def)

lemma createReport_effect:
  obtains (same) "snd (createReport cr env body files ip db) = db"
      "statusCode (fst (createReport cr env body files ip db)) \<noteq> Some 201"
  | (new) "accepted body"
      "createReport cr env body files ip db =
         (Json 201 (JObj
             [(''success'', JBool True),
              (''message'', JStr ''Report submitted successfully''),
              (''data'', JObj (getPublicData
                 ((creating cr env body files db)\<lparr>isNew := False, modifiedStatus := False\<rparr>))),
              (''casePassword'', JStr (generatePassword env))]),
          audit ''REPORT_CREATED''
             (''Report created with caseID: '' @ str (caseID (creating cr env body files db)))
             (newObjectId env) None ip
             (db\<lparr>reports := reports db @ [report.truncate (creating cr env body files db)]\<rparr>))"
      "minted cr env body db (report.truncate (creating cr env body files db))"
proof (cases "accepted body")
  case False
  from createReport_rejected [OF False, of cr env files ip db] show ?thesis
    by (intro same) simp_all
next
  case True
  let ?n = "newReport env body
                (case find (\<lambda>c. categoryName c = ''uncategorised'') (categories db) of
                   None \<Rightarrow> None | Some c \<Rightarrow> Some (categoryId c))
                (case find (\<lambda>a. agencyName a = ''unassigned'') (agencies db) of
                   None \<Rightarrow> None | Some a \<Rightarrow> Some (agencyId a))
                (map (\<lambda>file. \<lparr>filePath = uploadLocation file, fileType = mimetype file,
                              fileName = originalname file, uploadedAt = now env\<rparr>) files)"
  have c: "preSaveHistory env (preSavePassword cr env (preSaveCaseID env db ?n)) =
           creating cr env body files db"
    by (simp add: creating_def)
  show ?thesis
  proof (cases "validate ?n")
    case False
    then have "save cr env db ?n = Inl ValidationError" by (rule save_invalid)
    then show ?thesis
      by (intro same) (simp_all add: createReport_accepted [OF True] statusCode_def)
  next
    case v: True
    have n: "isNew ?n" by (simp add: newReport_def)
    show ?thesis
    proof (cases "duplicateKey db (creating cr env body files db)")
      case True
      then have "save cr env db ?n = Inl DuplicateKeyError"
        by (simp add: save_new [OF n v] c)
      then show ?thesis
        by (intro same) (simp_all add: createReport_accepted [OF \<open>accepted body\<close>] statusCode_def)
    next
      case False
      then have s: "save cr env db ?n =
          Inr ((creating cr env body files db)\<lparr>isNew := False, modifiedStatus := False\<rparr>,
               db\<lparr>reports := reports db @ [report.truncate (creating cr env body files db)]\<rparr>)"
        by (simp add: save_new [OF n v] c)
      have t: "body ''reporterType'' = Some (str (body ''reporterType''))"
        using \<open>accepted body\<close> by (auto simp: accepted_def str_def)
      have a: "str (body ''reporterType'') = ''anonymous'' \<longrightarrow>
          \<not> truthy (body ''reporterName'') \<and> \<not> truthy (body ''reporterEmail'') \<and>
          \<not> truthy (body ''reporterPhone'')"
        using \<open>accepted body\<close> t by (auto simp: accepted_def)
      have m: "minted cr env body db (report.truncate (creating cr env body files db))"
        unfolding minted_def
        using False v t a
        by (simp add: creating_fields duplicateKey_def validate_fetch
            validate_creating [of cr env body files db, symmetric])
      show ?thesis
        by (rule new [OF \<open>accepted body\<close> _ m])
          (simp add: createReport_accepted [OF \<open>accepted body\<close>] s creating_fields optKey_def)
    qed
  qed
qed

section \<open>Runs of the server\<close>

lemma handle_reports:
  "issuedBy q db (snd (handle cr q db)) = [] \<and>
     stepped (reports db) (reports (snd (handle cr q db))) \<or>
   (\<exists>env body files ip.
      q = CreateReport env body files ip \<and> accepted body \<and>
      minted cr env body db (report.truncate (creating cr env body files db)) \<and>
      issuedBy q db (snd (handle cr q db)) = [(newObjectId env, generatePassword env)] \<and>
      reports (snd (handle cr q db)) = reports db @ [report.truncate (creating cr env body files db)])"
proof (cases q)
  case (CreateReport env body files ip)
  show ?thesis
  proof (cases rule: createReport_effect [of cr env body files ip db])
    case same
    then show ?thesis using CreateReport by (simp add: stepped_refl)
  next
    case new
    then show ?thesis using CreateReport by simp
  qed
next
  case (AddWhistleblowerMessage env pw msg files ip)
  then show ?thesis
    using addWhistleblowerMessage_stepped [of db cr env pw msg files ip]
    by (cases "addWhistleblowerMessage cr env pw msg files ip db") auto
next
  case (DeleteCategory i)
  then show ?thesis
    by (simp add: deleteCategory_def stepped_refl split: idArg.splits option.splits)
next
  case (DeleteAgency i)
  then show ?thesis
    by (simp add: deleteAgency_def stepped_refl split: idArg.splits option.splits)
qed (simp_all add: stepped_refl updateReportStatus_stepped updateAgencyReportStatus_stepped
      assignReportToAgency_stepped updateReportCategory_stepped addAdminMessage_stepped
      addAgencyMessage_stepped)

lemma touched_fields:
  assumes "touched r r'"
  shows "rid r' = rid r" "passwordKey r' = passwordKey r" "password r' = password r"
    "reporterType r' = reporterType r" "reporterName r' = reporterName r"
    "reporterEmail r' = reporterEmail r" "reporterPhone r' = reporterPhone r"
    "title r' = title r" "description r' = description r"
    "truthy (caseID r) \<Longrightarrow> caseID r' = caseID r"
  using assms by (auto simp: touched_def)

lemma same_rid: "distinct (map rid rs) \<Longrightarrow> r \<in> set rs \<Longrightarrow> x \<in> set rs \<Longrightarrow> rid x = rid r \<Longrightarrow> x = r"
  by (metis distinct_map inj_on_def)

lemma stepped_all2:
  assumes "distinct (map rid rs)" "stepped rs rs'"
  shows "list_all2 (\<lambda>x x'. x' = x \<or> touched x x' \<and> validate (fetch False x')) rs rs'"
  using assms(2) unfolding stepped_def
proof (elim disjE exE conjE)
  assume "rs' = rs"
  then show ?thesis by (simp add: list_all2_same)
next
  fix r r'
  assume r: "r \<in> set rs" "touched r r'" "validate (fetch False r')"
    and e: "rs' = map (\<lambda>x. if rid x = rid r then r' else x) rs"
  show ?thesis
    unfolding e list_all2_map2
    by (rule list_all2_same [THEN iffD2]) (use r same_rid [OF assms(1) r(1)] in auto)
qed

lemma length_generatePassword: "length (generatePassword env) = 6"
  by (cases "randomBytes env")
    (simp add: generatePassword_def toUpperCase_def toHex_def byteToHex_def)

lemma all2_map:
  "list_all2 P rs rs' \<Longrightarrow> (\<And>x x'. P x x' \<Longrightarrow> f x' = f x) \<Longrightarrow> map f rs' = map f rs"
  by (induction rule: list_all2_induct) auto

lemma all2_ball:
  "list_all2 P rs rs' \<Longrightarrow> \<forall>x \<in> set rs. Q x \<Longrightarrow> (\<And>x x'. P x x' \<Longrightarrow> Q x \<Longrightarrow> Q x') \<Longrightarrow>
   \<forall>x \<in> set rs'. Q x"
  by (induction rule: list_all2_induct) auto

lemma minted_sane:
  assumes "minted cr env body db r"
  shows "rid r \<notin> set (map rid (reports db))" "passwordKey r \<notin> set (map passwordKey (reports db))"
    "validate (fetch False r)" "truthy (caseID r)"
  using assms unfolding minted_def by blast+

lemma minted_holder:
  assumes "minted cr env body db r"
  shows "holder cr (newObjectId env, generatePassword env) r"
  using assms unfolding minted_def holder_def by (auto simp: length_generatePassword)

lemma handle_sane:
  assumes "sane db"
  shows "sane (snd (handle cr q db))"
  using handle_reports [of q db cr]
proof (elim disjE exE conjE)
  assume "stepped (reports db) (reports (snd (handle cr q db)))"
  with assms have a: "list_all2 (\<lambda>x x'. x' = x \<or> touched x x' \<and> validate (fetch False x'))
      (reports db) (reports (snd (handle cr q db)))"
    by (simp add: stepped_all2 sane_def)
  have 1: "map rid (reports (snd (handle cr q db))) = map rid (reports db)"
    by (rule all2_map [OF a]) (auto simp: touched_fields)
  have 2: "map passwordKey (reports (snd (handle cr q db))) = map passwordKey (reports db)"
    by (rule all2_map [OF a]) (auto simp: touched_fields)
  have 3: "\<forall>r \<in> set (reports (snd (handle cr q db))). validate (fetch False r) \<and> truthy (caseID r)"
    by (rule all2_ball [OF a]) (use assms in \<open>auto simp: sane_def touched_fields\<close>)
  show ?thesis using assms 1 2 3 by (simp add: sane_def)
next
  fix env body files ip
  assume m: "minted cr env body db (report.truncate (creating cr env body files db))"
    and r: "reports (snd (handle cr q db)) = reports db @ [report.truncate (creating cr env body files db)]"
  show ?thesis using assms minted_sane [OF m] unfolding sane_def r by simp
qed

lemma handle_issuedTo:
  assumes "sane db" "issuedTo cr iss db"
  shows "issuedTo cr (iss @ issuedBy q db (snd (handle cr q db))) (snd (handle cr q db))"
  using handle_reports [of q db cr]
proof (elim disjE exE conjE)
  assume i: "issuedBy q db (snd (handle cr q db)) = []"
    and "stepped (reports db) (reports (snd (handle cr q db)))"
  with assms have a: "list_all2 (\<lambda>x x'. x' = x \<or> touched x x' \<and> validate (fetch False x'))
      (reports db) (reports (snd (handle cr q db)))"
    by (simp add: stepped_all2 sane_def)
  have h: "\<And>ip x x'. holder cr ip x \<Longrightarrow> x' = x \<or> touched x x' \<and> validate (fetch False x') \<Longrightarrow>
      holder cr ip x'"
    by (auto simp: holder_def touched_fields)
  have "list_all2 (holder cr) iss (reports (snd (handle cr q db)))"
    using assms(2) a unfolding issuedTo_def
    by (rule list_all2_trans [rotated]) (rule h)
  then show ?thesis by (simp add: i issuedTo_def)
next
  fix env body files ip
  assume m: "minted cr env body db (report.truncate (creating cr env body files db))"
    and i: "issuedBy q db (snd (handle cr q db)) = [(newObjectId env, generatePassword env)]"
    and r: "reports (snd (handle cr q db)) = reports db @ [report.truncate (creating cr env body files db)]"
  show ?thesis using assms(2) minted_holder [OF m] unfolding issuedTo_def i r
    by (simp add: list_all2_appendI)
qed

lemma run_invariants:
  "sane db \<Longrightarrow> issuedTo cr iss db \<Longrightarrow>
   sane (run cr qs db) \<and> issuedTo cr (iss @ issued cr qs db) (run cr qs db)"
proof (induction qs arbitrary: db iss)
  case Nil
  then show ?case by simp
next
  case (Cons q qs)
  from Cons.IH [OF handle_sane [OF Cons.prems(1)] handle_issuedTo [OF Cons.prems]]
  show ?case by (simp add: Let_def)
qed

lemma run_from_empty:
  assumes "reports db = []"
  shows "sane (run cr qs db)" "issuedTo cr (issued cr qs db) (run cr qs db)"
  using run_invariants [of db cr "[]" qs] assms by (simp_all add: sane_def issuedTo_def)

lemma populate_fields [simp]:
  "password (populateCategory sel db d) = password d"
  "password (populateAgency sel db d) = password d"
  "rid (populateCategory sel db d) = rid d"
  "rid (populateAgency sel db d) = rid d"
  "agencyAssigned (populateCategory sel db d) = agencyAssigned d"
  "plainPassword (populateCategory sel db d) = plainPassword d"
  "plainPassword (populateAgency sel db d) = plainPassword d"
  "report.truncate (populateCategory sel db d) = report.truncate d"
  "report.truncate (populateAgency sel db d) = report.truncate d"
  by (simp_all add: populateCategory_def populateAgency_def report.defs split: option.splits)







lemma seeded_reports: "reports seededDb = []"
  by code_simp







lemma find_append:
  "find P (xs @ ys) = (case find P xs of None \<Rightarrow> find P ys | Some x \<Rightarrow> Some x)"
  by (induction xs) auto

lemma seedDefaults_found:
  "find (\<lambda>c. categoryName c = ''uncategorised'') (categories (seedDefaults i j db)) \<noteq> None"
  "find (\<lambda>a. agencyName a = ''unassigned'') (agencies (seedDefaults i j db)) \<noteq> None"
proof -
  show "find (\<lambda>c. categoryName c = ''uncategorised'') (categories (seedDefaults i j db)) \<noteq> None"
    by (cases "find (\<lambda>c. categoryName c = ''uncategorised'') (categories db)")
      (simp_all add: seedDefaults_def Let_def find_append split: option.splits)
  show "find (\<lambda>a. agencyName a = ''unassigned'') (agencies (seedDefaults i j db)) \<noteq> None"
    unfolding seedDefaults_def Let_def
    by (simp add: find_append split: option.splits)
qed

lemma all2_find:
  assumes "list_all2 P rs rs'" and "\<And>x x'. P x x' \<Longrightarrow> rid x' = rid x"
  shows "(find (\<lambda>r. rid r = k) rs = None \<longrightarrow> find (\<lambda>r. rid r = k) rs' = None) \<and>
         (\<forall>r0. find (\<lambda>r. rid r = k) rs = Some r0 \<longrightarrow>
            (\<exists>r1. find (\<lambda>r. rid r = k) rs' = Some r1 \<and> P r0 r1))"
  using assms(1)
proof (induction rule: list_all2_induct)
  case Nil
  then show ?case by simp
next
  case (Cons x xs y ys)
  from assms(2) [OF Cons(1)] Cons show ?case by auto
qed

lemma handle_find:
  assumes "sane db"
  shows "(\<forall>r0. find (\<lambda>r. rid r = k) (reports db) = Some r0 \<longrightarrow>
            (\<exists>r1. find (\<lambda>r. rid r = k) (reports (snd (handle cr q db))) = Some r1 \<and>
                  (r1 = r0 \<or> touched r0 r1))) \<and>
         (find (\<lambda>r. rid r = k) (reports db) = None \<longrightarrow>
            find (\<lambda>r. rid r = k) (reports (snd (handle cr q db))) = None \<or>
            (\<exists>r1. find (\<lambda>r. rid r = k) (reports (snd (handle cr q db))) = Some r1 \<and>
                  status r1 = ''pending'' \<and> history r1 = []))"
  using handle_reports [of q db cr]
proof (elim disjE exE conjE)
  assume "stepped (reports db) (reports (snd (handle cr q db)))"
  with assms have a: "list_all2 (\<lambda>x x'. x' = x \<or> touched x x' \<and> validate (fetch False x'))
      (reports db) (reports (snd (handle cr q db)))"
    by (simp add: stepped_all2 sane_def)
  have "\<And>x x'. x' = x \<or> touched x x' \<and> validate (fetch False x') \<Longrightarrow> rid x' = rid x"
    by (auto simp: touched_fields)
  from all2_find [OF a this, of k] show ?thesis by blast
next
  fix env body files ip
  assume m: "minted cr env body db (report.truncate (creating cr env body files db))"
    and r: "reports (snd (handle cr q db)) = reports db @ [report.truncate (creating cr env body files db)]"
  from m have "status (report.truncate (creating cr env body files db)) = ''pending''"
    "history (report.truncate (creating cr env body files db)) = []"
    unfolding minted_def by blast+
  then show ?thesis unfolding r by (auto simp: find_append split: option.splits)
qed

lemma remdups_adj_head: "remdups_adj (b # xs) = b # tl (remdups_adj (b # xs))"
  by (induction xs arbitrary: b) auto

lemma remdups_adj_Cons2:
  "tl (remdups_adj (a # b # xs)) =
     (if a = b then tl (remdups_adj (b # xs)) else b # tl (remdups_adj (b # xs)))"
  using remdups_adj_head [of b xs] by simp

lemma changes_remdups: "changes xs = length (remdups_adj xs) - 1"
proof (induction xs rule: changes.induct)
  case (1 a b xs)
  then show ?case using remdups_adj_head [of b xs] by (cases "remdups_adj (b # xs)") auto
qed auto

lemma history_log:
  assumes "sane db"
  shows "find (\<lambda>r. rid r = k) (reports (run cr qs db)) = Some r \<Longrightarrow>
     map historyStatus (history r) =
       (case find (\<lambda>r. rid r = k) (reports db) of
          Some r0 \<Rightarrow> map historyStatus (history r0) @
                       tl (remdups_adj (status r0 # statusLog cr k qs db))
        | None \<Rightarrow> tl (remdups_adj (statusLog cr k qs db)))"
  using assms
proof (induction qs arbitrary: db)
  case Nil
  then show ?case by simp
next
  case (Cons q qs)
  let ?db = "snd (handle cr q db)"
  note s = handle_sane [OF Cons.prems(2), of cr q]
  have r: "find (\<lambda>r. rid r = k) (reports (run cr qs ?db)) = Some r"
    using Cons.prems(1) by simp
  note ih = Cons.IH [OF r s]
  note hf = handle_find [OF Cons.prems(2), of k cr q]
  show ?case
  proof (cases "find (\<lambda>r. rid r = k) (reports db)")
    case None
    with hf have "find (\<lambda>r. rid r = k) (reports ?db) = None \<or>
        (\<exists>r1. find (\<lambda>r. rid r = k) (reports ?db) = Some r1 \<and> status r1 = ''pending'' \<and>
              history r1 = [])"
      by simp
    then consider "find (\<lambda>r. rid r = k) (reports ?db) = None"
      | r1 where "find (\<lambda>r. rid r = k) (reports ?db) = Some r1" "status r1 = ''pending''"
          "history r1 = []"
      by auto
    then show ?thesis
    proof cases
      case 1
      with ih None show ?thesis by (simp add: Let_def)
    next
      case 2
      with ih None show ?thesis by (simp add: Let_def)
    qed
  next
    case (Some r0)
    with hf obtain r1 where r1: "find (\<lambda>r. rid r = k) (reports ?db) = Some r1"
      and t: "r1 = r0 \<or> touched r0 r1" by blast
    have h: "map historyStatus (history r1) =
        map historyStatus (history r0) @ (if status r1 \<noteq> status r0 then [status r1] else [])"
      using t by (auto simp: touched_def)
    show ?thesis
      using ih r1 Some h by (simp add: Let_def remdups_adj_Cons2)
  qed
qed

lemma sample_reports:
  "reports (run toyCrypto sampleRun seededDb) =
     [reportOne\<lparr>status := ''resolved'', isResolved := True,
                history := [\<lparr>historyStatus = ''resolved'', historyUpdatedAt = 2000\<rparr>]\<rparr>,
      reportTwo]"
  by code_simp

lemma sample_statusLog:
  "statusLog toyCrypto 1 sampleRun seededDb = [''pending'', ''pending'', ''resolved'']"
  by code_simp
section \<open>The agency's status update\<close>





section \<open>How a password finds its report\<close>

text \<open>
  Claim C3, on addWhistleblowerMessage. With two reports stored, a message sent under a
  password that belongs to neither is answered 401 after the handler has read every
  report and compared the password with the bcrypt hash of each in turn; it computes no
  digest and makes no lookup by \<^verbatim>\<open>passwordKey\<close>.
\<close>

theorem addWhistleblowerMessage_scans:
  "addWhistleblowerMessage toyCrypto envB (Some ''C0FFEE'') (Some ''any news?'') [] None dbTwo =
     (reject 401 ''Invalid password. Report not found.'', dbTwo,
      [FindAll, MatchPassword 1, MatchPassword 2])"
  by (simp add: addWhistleblowerMessage_def dbTwo_reports truthy_def str_def matchPassword_def
      toyCrypto_def reportOne_def reportTwo_def)

theorem addWhistleblowerMessage_scans_witness:
  "snd (snd (addWhistleblowerMessage toyCrypto envB (Some ''C0FFEE'') (Some ''any news?'') [] None
               dbTwo)) =
   [FindAll, MatchPassword 1, MatchPassword 2]"
  using addWhistleblowerMessage_scans by simp

section \<open>The case password\<close>








section \<open>The default category and agency\<close>

text \<open>
  Claim C9 says every report is created with references to the two default records.
  After start-up, an administrator deletes the category "uncategorised" and the agency
  "unassigned" (deleteCategory and deleteAgency accept any id); the report created next
  is stored with \<^verbatim>\<open>category\<close> and \<^verbatim>\<open>agencyAssigned\<close> null.
\<close>

theorem createReport_without_defaults:
  "map (\<lambda>r. (category r, agencyAssigned r)) (reports (run toyCrypto orphanRun seededDb)) =
     [(None, None)]"
  by code_simp

text \<open>
  Claim C9, as the code has it. A report that createReport stores carries in \<^verbatim>\<open>category\<close>
  the id of the category named "uncategorised" and in \<^verbatim>\<open>agencyAssigned\<close> the id of the
  agency named "unassigned", each looked up when the report is created, and null for a
  record that is not there; both records are there in a database that seedDefaults has
  just left.
\<close>

theorem createReport_defaults:
  assumes "createReport cr env body files ip db = (Json 201 j, db')"
  shows "\<exists>r. reports db' = reports db @ [r] \<and>
           category r = (case find (\<lambda>c. categoryName c = ''uncategorised'') (categories db) of
                           None \<Rightarrow> None | Some c \<Rightarrow> Some (categoryId c)) \<and>
           agencyAssigned r = (case find (\<lambda>a. agencyName a = ''unassigned'') (agencies db) of
                                 None \<Rightarrow> None | Some a \<Rightarrow> Some (agencyId a)) \<and>
           (\<forall>i k d. db = seedDefaults i k d \<longrightarrow> category r \<noteq> None \<and> agencyAssigned r \<noteq> None)"
proof (cases rule: createReport_effect [of cr env body files ip db])
  case same
  with assms show ?thesis by (simp add: statusCode_def)
next
  case new
  let ?r = "report.truncate (creating cr env body files db)"
  from new(3) have c: "category ?r = map_option categoryId
        (find (\<lambda>c. categoryName c = ''uncategorised'') (categories db))"
    and a: "agencyAssigned ?r = map_option agencyId
        (find (\<lambda>a. agencyName a = ''unassigned'') (agencies db))"
    unfolding minted_def by blast+
  have "db' = snd (createReport cr env body files ip db)" using assms by simp
  then have r: "reports db' = reports db @ [?r]"
    by (simp add: new(2))
  show ?thesis
  proof (intro exI [of _ ?r] conjI allI impI)
    show "reports db' = reports db @ [?r]" by (rule r)
    show "category ?r = (case find (\<lambda>c. categoryName c = ''uncategorised'') (categories db) of
                           None \<Rightarrow> None | Some c \<Rightarrow> Some (categoryId c))"
      using c by (simp add: map_option_case)
    show "agencyAssigned ?r = (case find (\<lambda>a. agencyName a = ''unassigned'') (agencies db) of
                                 None \<Rightarrow> None | Some a \<Rightarrow> Some (agencyId a))"
      using a by (simp add: map_option_case)
  next
    fix i k d
    assume "db = seedDefaults i k d"
    with seedDefaults_found [of i k d] c a
    show "category ?r \<noteq> None" "agencyAssigned ?r \<noteq> None" by auto
  qed
qed

theorem createReport_defaults_witness:
  "statusCode (fst (createReport toyCrypto envA anonymousBody [] None seededDb)) = Some 201 \<and>
   (\<exists>r. reports dbOne = reports seededDb @ [r] \<and> category r = Some 10 \<and> agencyAssigned r = Some 11)"
proof -
  have s: "statusCode (fst (createReport toyCrypto envA anonymousBody [] None seededDb)) = Some 201"
    by code_simp
  have c: "(case find (\<lambda>c. categoryName c = ''uncategorised'') (categories seededDb) of
              None \<Rightarrow> None | Some c \<Rightarrow> Some (categoryId c)) = Some 10"
    and a: "(case find (\<lambda>a. agencyName a = ''unassigned'') (agencies seededDb) of
              None \<Rightarrow> None | Some a \<Rightarrow> Some (agencyId a)) = Some 11"
    by (simp_all add: seededDb_def seedDefaults_def emptyDb_def)
  have "\<exists>r. reports dbOne = reports seededDb @ [r] \<and> category r = Some 10 \<and> agencyAssigned r = Some 11"
  proof (cases rule: createReport_effect [of toyCrypto envA anonymousBody "[]" None seededDb])
    case same
    with s show ?thesis by simp
  next
    case new
    from createReport_defaults [OF new(2)] obtain r where
      "reports (snd (createReport toyCrypto envA anonymousBody [] None seededDb)) =
         reports seededDb @ [r]"
      "category r = Some 10" "agencyAssigned r = Some 11"
      unfolding c a new(2) snd_conv by blast
    then show ?thesis unfolding dbOne_def by blast
  qed
  with s show ?thesis by blast
qed

section \<open>The status history\<close>

text \<open>
  Claim C7 says the history has one entry after the first save, and one more than the
  number of status changes ever after. createReport gives the new document no status:
  the path is filled from the schema default, it is not modified when the history hook
  runs, and the report is stored with an empty history. In the sample run the first
  report is created pending, is still pending after the next request and is then
  resolved: one change, one entry.
\<close>

theorem history_after_creation:
  "map (\<lambda>r. length (history r)) (reports dbOne) = [0] \<and>
   statusLog toyCrypto 1 sampleRun seededDb = [''pending'', ''pending'', ''resolved''] \<and>
   map (\<lambda>r. length (history r)) (reports (run toyCrypto sampleRun seededDb)) = [1, 0]"
  using sample_statusLog
  by (simp add: dbOne_reports sample_reports reportOne_def reportTwo_def)

text \<open>
  Claim C7, as the code has it. Start from a database without reports and let any
  requests run; take a report that is stored at the end, and the statuses it had after
  each request since its creation. The statuses recorded in its history are the
  successive values of that sequence after the first, repetitions dropped, so the length
  of the history is the number of status changes since creation. Whatever request comes
  next, the report is still there, and its history is the one before, followed by one
  entry with the new status and a time when the status has changed and by nothing when
  it has not.
\<close>

theorem status_history:
  assumes "reports db0 = []" and "find (\<lambda>x. rid x = k) (reports (run cr qs db0)) = Some r"
  shows "map historyStatus (history r) = tl (remdups_adj (statusLog cr k qs db0)) \<and>
         length (history r) = changes (statusLog cr k qs db0) \<and>
         (\<forall>q. \<exists>r' t. find (\<lambda>x. rid x = k) (reports (snd (handle cr q (run cr qs db0)))) = Some r' \<and>
                history r' = history r @
                  (if status r' \<noteq> status r
                   then [\<lparr>historyStatus = status r', historyUpdatedAt = t\<rparr>] else []))"
proof (intro conjI allI)
  have s: "sane db0" using assms(1) by (simp add: sane_def)
  from history_log [OF s assms(2)] assms(1)
  show m: "map historyStatus (history r) = tl (remdups_adj (statusLog cr k qs db0))"
    by simp
  have "length (history r) = length (map historyStatus (history r))" by simp
  also have "\<dots> = changes (statusLog cr k qs db0)"
    unfolding m by (simp add: changes_remdups)
  finally show "length (history r) = changes (statusLog cr k qs db0)" .
next
  fix q
  let ?db = "run cr qs db0"
  note inv = run_from_empty [OF assms(1), of cr qs]
  from handle_find [OF inv(1), of k cr q] assms(2) obtain r' where
    f: "find (\<lambda>x. rid x = k) (reports (snd (handle cr q ?db))) = Some r'"
    and t: "r' = r \<or> touched r r'" by blast
  from t have "\<exists>t. history r' = history r @
                  (if status r' \<noteq> status r
                   then [\<lparr>historyStatus = status r', historyUpdatedAt = t\<rparr>] else [])"
    by (auto simp: touched_def)
  with f show "\<exists>r' t. find (\<lambda>x. rid x = k) (reports (snd (handle cr q ?db))) = Some r' \<and>
                history r' = history r @
                  (if status r' \<noteq> status r
                   then [\<lparr>historyStatus = status r', historyUpdatedAt = t\<rparr>] else [])"
    by blast
qed

theorem status_history_witness:
  "reports seededDb = [] \<and>
   (\<exists>r. find (\<lambda>x. rid x = 1) (reports (run toyCrypto sampleRun seededDb)) = Some r \<and>
        map historyStatus (history r) = tl (remdups_adj (statusLog toyCrypto 1 sampleRun seededDb)) \<and>
        length (history r) = changes (statusLog toyCrypto 1 sampleRun seededDb) \<and>
        length (history r) = 1)"
proof -
  let ?r = "reportOne\<lparr>status := ''resolved'', isResolved := True,
                history := [\<lparr>historyStatus = ''resolved'', historyUpdatedAt = 2000\<rparr>]\<rparr>"
  have f: "find (\<lambda>x. rid x = 1) (reports (run toyCrypto sampleRun seededDb)) = Some ?r"
    by (simp add: sample_reports reportOne_def)
  from status_history [OF seeded_reports f]
  have "map historyStatus (history ?r) = tl (remdups_adj (statusLog toyCrypto 1 sampleRun seededDb))"
    "length (history ?r) = changes (statusLog toyCrypto 1 sampleRun seededDb)"
    by blast+
  moreover have "length (history ?r) = 1" by simp
  ultimately show ?thesis using seeded_reports f by blast
qed

end
